theory Spec2Isabelle
  imports Complex_Main "HOL-Library.AList" "HOL-Library.List_Lexorder"
begin

section \<open>Python values\<close>

text \<open>
  The program is \<^verbatim>\<open>scripts/update_taipei_evaluations.py\<close>. A Python \<^verbatim>\<open>str\<close> is a
  sequence of Unicode code points, so it is modelled as a list of naturals; the order
  of \<^theory_text>\<open>List_Lexorder\<close> on such lists is Python's order on strings. The literal
  keys and markers of the source that are not ASCII are written by code point.
\<close>

type_synonym pystr = "nat list"

definition py :: "string \<Rightarrow> pystr" where
  "py s = map of_char s"

text \<open>
  A float is either a finite number, an infinity or the not-a-number value. The program
  only takes magnitudes of floats and compares them, which is exact, so the finite
  floats are read as the reals they denote.
\<close>

datatype pyfloat = Finite real | PosInf | NegInf | NaN

text \<open>What \<^verbatim>\<open>json\<close> decodes to: the values of type \<^verbatim>\<open>Any\<close> of the source.\<close>

datatype pyval =
    PNone
  | PBool bool
  | PInt int
  | PFloat pyfloat
  | PStr pystr
  | PList "pyval list"
  | PDict "(pystr \<times> pyval) list"

text \<open>
  A \<^verbatim>\<open>Dict[str, Any]\<close> is an association list in insertion order; its keys are
  distinct. \<^verbatim>\<open>d.get(k)\<close> is \<open>dict_get\<close>, \<^verbatim>\<open>d[k] = v\<close> is \<^const>\<open>AList.update\<close>
  (in place for a key that is there, at the end for a new one) and
  \<^verbatim>\<open>d.update(other)\<close> is \<open>dict_update\<close>.
\<close>

type_synonym 'v pydict = "(pystr \<times> 'v) list"

definition dict_get :: "pyval pydict \<Rightarrow> pystr \<Rightarrow> pyval" where
  "dict_get d k = (case map_of d k of None \<Rightarrow> PNone | Some v \<Rightarrow> v)"

definition dict_update :: "'v pydict \<Rightarrow> 'v pydict \<Rightarrow> 'v pydict" where
  "dict_update d other = fold (\<lambda>(k, v). AList.update k v) other d"

text \<open>Truth value testing, as \<^verbatim>\<open>if x\<close>, \<^verbatim>\<open>not x\<close> and \<^verbatim>\<open>x or y\<close> use it.\<close>

fun truthy :: "pyval \<Rightarrow> bool" where
  "truthy PNone = False"
| "truthy (PBool b) = b"
| "truthy (PInt n) = (n \<noteq> 0)"
| "truthy (PFloat f) = (f \<noteq> Finite 0)"
| "truthy (PStr s) = (s \<noteq> [])"
| "truthy (PList xs) = (xs \<noteq> [])"
| "truthy (PDict d) = (d \<noteq> [])"

text \<open>
  \<^verbatim>\<open>str.isspace\<close> of one code point, which is also the class \<^verbatim>\<open>\s\<close> of \<^verbatim>\<open>re\<close> on a
  \<^verbatim>\<open>str\<close> pattern, and \<^verbatim>\<open>str.strip()\<close>.
\<close>

definition isspace :: "nat \<Rightarrow> bool" where
  "isspace c \<longleftrightarrow>
     (9 \<le> c \<and> c \<le> 13) \<or> (28 \<le> c \<and> c \<le> 32) \<or> c = 133 \<or> c = 160 \<or> c = 5760 \<or>
     (8192 \<le> c \<and> c \<le> 8202) \<or> c = 8232 \<or> c = 8233 \<or> c = 8239 \<or> c = 8287 \<or> c = 12288"

definition strip :: "pystr \<Rightarrow> pystr" where
  "strip s = rev (dropWhile isspace (rev (dropWhile isspace s)))"

subsection \<open>Dates and times\<close>

text \<open>
  A \<^verbatim>\<open>datetime\<close> is its wall-clock reading, counted in microseconds from the start of
  the proleptic calendar, and its \<^verbatim>\<open>tzinfo\<close>: the offset from UTC in microseconds, or
  \<open>None\<close> when the value is naive. A \<^verbatim>\<open>timedelta\<close> is a number of microseconds.
\<close>

record datetime =
  wall :: int
  tzinfo :: "int option"

definition timedelta_hours :: "int \<Rightarrow> int" where
  "timedelta_hours h = h * 3600000000"

definition timedelta_days :: "int \<Rightarrow> int" where
  "timedelta_days d = d * 86400000000"

text \<open>\<^verbatim>\<open>datetime.now(tz=tz)\<close>, at the instant \<open>now\<close> (microseconds, UTC).\<close>

definition datetime_now :: "int \<Rightarrow> int \<Rightarrow> datetime" where
  "datetime_now now tz = \<lparr>wall = now + tz, tzinfo = Some tz\<rparr>"

text \<open>
  The difference of two datetimes: of the wall-clock readings when neither or both
  carry the same offset, corrected by the offsets otherwise. Python raises
  \<^verbatim>\<open>TypeError\<close> when exactly one of the two is naive; that is \<open>None\<close> here.
\<close>

definition datetime_sub :: "datetime \<Rightarrow> datetime \<Rightarrow> int option" where
  "datetime_sub a b =
     (case (tzinfo a, tzinfo b) of
        (None, None) \<Rightarrow> Some (wall a - wall b)
      | (Some oa, Some ob) \<Rightarrow> Some (wall a - wall b + ob - oa)
      | _ \<Rightarrow> None)"

subsection \<open>The tables and documents\<close>

text \<open>
  A row of the roster table, as \<^verbatim>\<open>csv.DictReader\<close> gives it: for each column the
  program reads, the cell, or \<open>None\<close> where \<^verbatim>\<open>c.get\<close> returns \<^verbatim>\<open>None\<close> (the column is
  missing or the row is short). The columns, in the order of the fields: the sequence
  number (the identifier), the name, the district, the address, the phone, the approved
  and the current capacity, and the legacy grade field.
\<close>

record base_row =
  row_seq :: "pystr option"
  row_name :: "pystr option"
  row_district :: "pystr option"
  row_address :: "pystr option"
  row_phone :: "pystr option"
  row_capacity_approved :: "pystr option"
  row_capacity_current :: "pystr option"
  row_legacy :: "pystr option"

text \<open>A row of the geocode table: the columns \<^verbatim>\<open>id\<close>, \<^verbatim>\<open>lat\<close>, \<^verbatim>\<open>lng\<close>, \<^verbatim>\<open>Response_Address\<close>.\<close>

record xy_row =
  xy_id :: "pystr option"
  xy_lat :: "pystr option"
  xy_lng :: "pystr option"
  xy_response_address :: "pystr option"

text \<open>An entry of \<^verbatim>\<open>xy_map\<close>.\<close>

record geo =
  geo_response_address :: pystr
  geo_lat :: "pyfloat option"
  geo_lng :: "pyfloat option"

text \<open>One entry of \<^verbatim>\<open>out_centers\<close>, and the output document.\<close>

record center_snapshot =
  cs_id :: int
  cs_name :: pystr
  cs_district :: pystr
  cs_address :: pystr
  cs_phone :: pystr
  cs_capacity_approved :: pystr
  cs_capacity_current :: pystr
  cs_response_address :: "pystr option"
  cs_lat :: "pyfloat option"
  cs_lng :: "pyfloat option"
  cs_evaluation_by_year :: "pyval pydict"
  cs_source_importdate :: "pystr option"

record doc_meta =
  m_source :: pystr
  m_fetched_at :: pystr
  m_last_successful_update :: pystr
  m_update_interval_days :: int
  m_api_reported_count :: pyval
  m_notes :: pystr
  m_unmatched_center_ids_in_base_list :: "int list"
  m_unmatched_count :: nat

record document =
  d_meta :: doc_meta
  d_centers :: "center_snapshot list"

text \<open>
  The previous output document, decoded. The program reads it only through
  \<^verbatim>\<open>.get\<close> with defaults, and the model holds what these reads return:
  \<open>pd_last_successful_update\<close> is \<^verbatim>\<open>existing.get("meta", {}).get("last_successful_update")\<close>
  (\<open>PNone\<close> when a key is missing), \<open>pd_centers\<close> is \<^verbatim>\<open>existing.get("centers", [])\<close>,
  and of each of its entries \<open>pc_id\<close> is \<^verbatim>\<open>old.get("id")\<close> and
  \<open>pc_evaluation_by_year\<close> is \<^verbatim>\<open>old.get("evaluation_by_year", {}) or {}\<close>.
\<close>

record prior_center =
  pc_id :: pyval
  pc_evaluation_by_year :: "pyval pydict"

record prior_doc =
  pd_last_successful_update :: pyval
  pd_centers :: "prior_center list"

text \<open>
  The output file on disk: its text, and what \<^verbatim>\<open>json.load\<close> makes of it, \<open>None\<close>
  when the decoder rejects the text (\<^verbatim>\<open>json.JSONDecodeError\<close>).
\<close>

record output_file =
  file_text :: pystr
  file_json :: "prior_doc option"

text \<open>
  A page of the remote endpoint: the object under \<^verbatim>\<open>result\<close> of the body. For each of
  the keys \<^verbatim>\<open>count\<close>, \<^verbatim>\<open>limit\<close> and \<^verbatim>\<open>offset\<close> the value, which may be any decoded value,
  \<^verbatim>\<open>null\<close> (\<open>PNone\<close>) among them, or \<open>None\<close> where the key is missing; \<open>pg_results\<close> is
  \<^verbatim>\<open>result.get("results", []) or []\<close>, a list of records.
\<close>

record page =
  pg_count :: "pyval option"
  pg_limit :: "pyval option"
  pg_offset :: "pyval option"
  pg_results :: "pyval pydict list"

datatype response = Failed | Page page

record api_meta =
  api_url :: pystr
  reported_count :: pyval
  reported_limit :: pyval
  reported_offset :: pyval

datatype error = JSONDecodeError | HTTPError | TypeError | ValueError | OverflowError

subsection \<open>The library\<close>

text \<open>
  What the program calls and does not define is a parameter of the model, so every
  theorem below holds whatever these functions compute:
  \<^item> \<open>repr_of\<close>: \<^verbatim>\<open>str(x)\<close> of a value that is not a \<^verbatim>\<open>str\<close>;
  \<^item> \<open>int_of_str\<close>: \<^verbatim>\<open>int(s)\<close> of a \<^verbatim>\<open>str\<close>, \<open>None\<close> when it raises;
  \<^item> \<open>float_of_str\<close>: \<^verbatim>\<open>float(s)\<close> of a \<^verbatim>\<open>str\<close>, \<open>None\<close> when it raises;
  \<^item> \<open>isdecimal\<close>: the class \<^verbatim>\<open>\d\<close> of \<^verbatim>\<open>re\<close> (the decimal digits of the Unicode
    tables the interpreter was built with);
  \<^item> \<open>fromisoformat\<close>: \<^verbatim>\<open>datetime.fromisoformat\<close>, \<open>None\<close> when it raises;
  \<^item> \<open>isoformat\<close>: \<^verbatim>\<open>datetime.isoformat\<close>;
  \<^item> \<open>json_dumps\<close>: \<^verbatim>\<open>json.dumps\<close> of the output document, with the options of the
    call in \<^verbatim>\<open>main\<close>.
\<close>

record pylib =
  repr_of :: "pyval \<Rightarrow> pystr"
  int_of_str :: "pystr \<Rightarrow> int option"
  float_of_str :: "pystr \<Rightarrow> pyfloat option"
  isdecimal :: "nat \<Rightarrow> bool"
  fromisoformat :: "pystr \<Rightarrow> datetime option"
  isoformat :: "datetime \<Rightarrow> pystr"
  json_dumps :: "document \<Rightarrow> pystr"

definition py_str :: "pylib \<Rightarrow> pyval \<Rightarrow> pystr" where
  "py_str L x = (case x of PStr s \<Rightarrow> s | _ \<Rightarrow> repr_of L x)"

section \<open>Constants and helpers of the script\<close>

definition UPDATE_INTERVAL_DAYS :: int where
  "UPDATE_INTERVAL_DAYS = 10"

definition DEFAULT_LIMIT :: nat where
  "DEFAULT_LIMIT = 1000"

definition API_BASE :: pystr where
  "API_BASE = py ''https://data.taipei/api/v1/dataset/43c0bdc5-ddb0-40bf-accd-a096d8c5ac23?scope=resourceAquire''"

text \<open>
  \<^verbatim>\<open>YEAR_COL_RE.match(s)\<close>: three decimal digits and the year marker (code point
  24180); \<^verbatim>\<open>$\<close> also matches before one final newline. The result is the group
  \<^verbatim>\<open>yr\<close>.
\<close>

fun YEAR_COL_RE_match :: "pylib \<Rightarrow> pystr \<Rightarrow> pystr option" where
  "YEAR_COL_RE_match L [a, b, c, y] =
     (if isdecimal L a \<and> isdecimal L b \<and> isdecimal L c \<and> y = 24180 then Some [a, b, c] else None)"
| "YEAR_COL_RE_match L [a, b, c, y, n] =
     (if isdecimal L a \<and> isdecimal L b \<and> isdecimal L c \<and> y = 24180 \<and> n = 10
      then Some [a, b, c] else None)"
| "YEAR_COL_RE_match L s = None"

text \<open>
  \<^verbatim>\<open>LEGACY_EVAL_RE.match(s)\<close>: three decimal digits, optional white space, an ASCII or
  full-width hyphen (code points 45 and 65293), optional white space, the grade, optional
  white space. The grade is matched lazily by \<^verbatim>\<open>.+?\<close>, which takes no newline (code
  point 10): where text follows the hyphen's white space the grade runs to the last
  character that is not white space; where only white space follows, the engine
  backtracks and the grade is the last character of it that is not a newline. The
  result is the groups \<^verbatim>\<open>yr\<close> and \<^verbatim>\<open>grade\<close>.
\<close>

definition LEGACY_EVAL_RE_match :: "pylib \<Rightarrow> pystr \<Rightarrow> (pystr \<times> pystr) option" where
  "LEGACY_EVAL_RE_match L s =
     (case s of
        a # b # c # t \<Rightarrow>
          if isdecimal L a \<and> isdecimal L b \<and> isdecimal L c then
            (case dropWhile isspace t of
               sep # r \<Rightarrow>
                 if sep = 45 \<or> sep = 65293 then
                   (let r' = dropWhile isspace r; g = rev (dropWhile isspace (rev r')) in
                    if r' \<noteq> [] then (if 10 \<in> set g then None else Some ([a, b, c], g))
                    else (case rev (filter (\<lambda>x. x \<noteq> 10) r) of
                            [] \<Rightarrow> None
                          | x # _ \<Rightarrow> Some ([a, b, c], [x])))
                 else None
             | [] \<Rightarrow> None)
          else None
      | _ \<Rightarrow> None)"

text \<open>\<^verbatim>\<open>safe_int\<close>: every exception of the conversion becomes \<^verbatim>\<open>None\<close>.\<close>

definition safe_int :: "pylib \<Rightarrow> pyval \<Rightarrow> int option" where
  "safe_int L x = int_of_str L (strip (py_str L x))"

text \<open>\<^verbatim>\<open>parse_eval_years\<close>: the year columns of one record of the remote dataset.\<close>

definition parse_eval_years :: "pylib \<Rightarrow> pyval pydict \<Rightarrow> pystr pydict" where
  "parse_eval_years L rec =
     fold (\<lambda>(k, v) years.
             case YEAR_COL_RE_match L (strip k) of
               None \<Rightarrow> years
             | Some yr \<Rightarrow> AList.update yr (if v = PNone then [] else strip (py_str L v)) years)
          rec []"

text \<open>
  \<^verbatim>\<open>normalize_lat_lng\<close>. \<^verbatim>\<open>abs\<close> of a float and its comparison with the integer 90
  raise nothing; a comparison with the not-a-number value is false.
\<close>

fun float_abs :: "pyfloat \<Rightarrow> pyfloat" where
  "float_abs (Finite x) = Finite \<bar>x\<bar>"
| "float_abs PosInf = PosInf"
| "float_abs NegInf = PosInf"
| "float_abs NaN = NaN"

fun float_gt :: "pyfloat \<Rightarrow> real \<Rightarrow> bool" where
  "float_gt (Finite x) c = (x > c)"
| "float_gt PosInf c = True"
| "float_gt NegInf c = False"
| "float_gt NaN c = False"

fun float_le :: "pyfloat \<Rightarrow> real \<Rightarrow> bool" where
  "float_le (Finite x) c = (x \<le> c)"
| "float_le PosInf c = False"
| "float_le NegInf c = True"
| "float_le NaN c = False"

fun normalize_lat_lng :: "pyfloat option \<Rightarrow> pyfloat option \<Rightarrow> pyfloat option \<times> pyfloat option" where
  "normalize_lat_lng None lng = (None, lng)"
| "normalize_lat_lng (Some lat) None = (Some lat, None)"
| "normalize_lat_lng (Some lat) (Some lng) =
     (if float_gt (float_abs lat) 90 \<and> float_le (float_abs lng) 90
      then (Some lng, Some lat) else (Some lat, Some lng))"

section \<open>The remote loader\<close>

text \<open>\<^verbatim>\<open>d.get(key)\<close> without a default: \<^verbatim>\<open>None\<close> for a missing key.\<close>

definition get_or_none :: "pyval option \<Rightarrow> pyval" where
  "get_or_none v = (case v of None \<Rightarrow> PNone | Some x \<Rightarrow> x)"

text \<open>
  \<^verbatim>\<open>int(x)\<close> of a decoded value: \<^verbatim>\<open>TypeError\<close> for \<^verbatim>\<open>None\<close>, a list or a dictionary; a
  truth value is 0 or 1; a finite float is cut towards zero, an infinity raises
  \<^verbatim>\<open>OverflowError\<close> and the not-a-number value \<^verbatim>\<open>ValueError\<close>; a \<^verbatim>\<open>str\<close> is converted by
  the library or raises \<^verbatim>\<open>ValueError\<close>.
\<close>

definition py_int :: "pylib \<Rightarrow> pyval \<Rightarrow> error + int" where
  "py_int L x =
     (case x of
        PNone \<Rightarrow> Inl TypeError
      | PBool b \<Rightarrow> Inr (if b then 1 else 0)
      | PInt n \<Rightarrow> Inr n
      | PFloat f \<Rightarrow>
          (case f of
             Finite r \<Rightarrow> Inr (if r < 0 then - \<lfloor>- r\<rfloor> else \<lfloor>r\<rfloor>)
           | NaN \<Rightarrow> Inl ValueError
           | _ \<Rightarrow> Inl OverflowError)
      | PStr s \<Rightarrow> (case int_of_str L s of None \<Rightarrow> Inl ValueError | Some n \<Rightarrow> Inr n)
      | PList xs \<Rightarrow> Inl TypeError
      | PDict d \<Rightarrow> Inl TypeError)"

text \<open>
  \<^verbatim>\<open>fetch_all_records\<close>. The endpoint is a function from the offset of the request to
  its response; \<open>Failed\<close> is a response on which \<^verbatim>\<open>raise_for_status\<close> raises. The loop
  is \<^verbatim>\<open>while True\<close>: a run that never leaves it has the value \<open>None\<close>. \<open>out\<close> and
  \<open>meta\<close> are the local variables of these names (\<open>None\<close> for the empty \<^verbatim>\<open>meta\<close>). The
  count defaults to the running total only where the key is missing; \<^verbatim>\<open>int(count)\<close> raises
  on a count that is \<^verbatim>\<open>null\<close>.
\<close>

partial_function (option) fetch_loop ::
  "pylib \<Rightarrow> (nat \<Rightarrow> response) \<Rightarrow> nat \<Rightarrow> pyval pydict list \<Rightarrow> api_meta option
     \<Rightarrow> (error + pyval pydict list \<times> api_meta) option" where
  "fetch_loop L server offset out meta =
     (case server offset of
        Failed \<Rightarrow> Some (Inl HTTPError)
      | Page result \<Rightarrow>
          (let meta' = (case meta of
                          None \<Rightarrow> \<lparr>api_url = API_BASE,
                                    reported_count = get_or_none (pg_count result),
                                    reported_limit = get_or_none (pg_limit result),
                                    reported_offset = get_or_none (pg_offset result)\<rparr>
                        | Some m \<Rightarrow> m);
               out' = out @ pg_results result;
               count = (case pg_count result of None \<Rightarrow> PInt (int (length out')) | Some c \<Rightarrow> c)
           in case py_int L count of
                Inl e \<Rightarrow> Some (Inl e)
              | Inr n \<Rightarrow>
                  if int (length out') \<ge> n then Some (Inr (out', meta'))
                  else fetch_loop L server (offset + DEFAULT_LIMIT) out' (Some meta')))"

definition fetch_all_records ::
  "pylib \<Rightarrow> (nat \<Rightarrow> response) \<Rightarrow> (error + pyval pydict list \<times> api_meta) option" where
  "fetch_all_records L server = fetch_loop L server 0 [] None"

section \<open>The staleness gate\<close>

text \<open>\<^verbatim>\<open>load_existing_json\<close>: the decoder's exception is not caught.\<close>

definition load_existing_json :: "output_file option \<Rightarrow> error + prior_doc option" where
  "load_existing_json f =
     (case f of
        None \<Rightarrow> Inr None
      | Some file \<Rightarrow>
          (case file_json file of
             None \<Rightarrow> Inl JSONDecodeError
           | Some doc \<Rightarrow> Inr (Some doc)))"

text \<open>\<^verbatim>\<open>s.replace(" ", "T")\<close>.\<close>

definition replace_space_T :: "pystr \<Rightarrow> pystr" where
  "replace_space_T s = map (\<lambda>c. if c = 32 then 84 else c) s"

text \<open>
  \<^verbatim>\<open>should_run_update\<close>. \<open>force\<close> is the environment variable \<^verbatim>\<open>FORCE_UPDATE\<close>
  (\<open>None\<close> when unset) and \<open>now\<close> the instant at which the clock is read.
\<close>

definition should_run_update ::
  "pylib \<Rightarrow> pystr option \<Rightarrow> int \<Rightarrow> prior_doc option \<Rightarrow> error + bool" where
  "should_run_update L force now existing =
     (if strip (case force of None \<Rightarrow> [] | Some s \<Rightarrow> s) = py ''1'' then Inr True
      else case existing of
        None \<Rightarrow> Inr True
      | Some doc \<Rightarrow>
          (let last = pd_last_successful_update doc in
           if \<not> truthy last then Inr True
           else case fromisoformat L (replace_space_T (py_str L last)) of
             None \<Rightarrow> Inr True
           | Some parsed \<Rightarrow>
               (let tz = timedelta_hours 8;
                    now_dt = datetime_now now tz;
                    last_dt = (if tzinfo parsed = None then parsed\<lparr>tzinfo := Some tz\<rparr> else parsed)
                in case datetime_sub now_dt last_dt of
                     None \<Rightarrow> Inl TypeError
                   | Some elapsed \<Rightarrow> Inr (elapsed \<ge> timedelta_days UPDATE_INTERVAL_DAYS))))"

section \<open>The geocode table\<close>

text \<open>\<^verbatim>\<open>float(r.get(key, "") or "nan")\<close>.\<close>

definition parse_coord :: "pylib \<Rightarrow> pystr option \<Rightarrow> pyfloat option" where
  "parse_coord L cell =
     float_of_str L (case cell of None \<Rightarrow> py ''nan'' | Some s \<Rightarrow> if s = [] then py ''nan'' else s)"

text \<open>\<^verbatim>\<open>(x or "").strip()\<close> of a cell.\<close>

definition cell_text :: "pystr option \<Rightarrow> pystr" where
  "cell_text cell = strip (case cell of None \<Rightarrow> [] | Some s \<Rightarrow> s)"

definition cell_val :: "pystr option \<Rightarrow> pyval" where
  "cell_val cell = (case cell of None \<Rightarrow> PNone | Some s \<Rightarrow> PStr s)"

text \<open>
  One turn of the loop that fills \<^verbatim>\<open>xy_map\<close>: \<^verbatim>\<open>if not cid: continue\<close> skips a row
  whose identifier does not parse and a row whose identifier is 0; if either
  coordinate fails to convert both are \<^verbatim>\<open>None\<close>; \<^verbatim>\<open>str(lat) == "nan"\<close> holds of the
  not-a-number value only.
\<close>

definition xy_step :: "pylib \<Rightarrow> xy_row \<Rightarrow> (int \<rightharpoonup> geo) \<Rightarrow> (int \<rightharpoonup> geo)" where
  "xy_step L r xy_map =
     (case safe_int L (cell_val (xy_id r)) of
        None \<Rightarrow> xy_map
      | Some cid \<Rightarrow>
          if cid = 0 then xy_map
          else
            (let (lat0, lng0) =
                   (case (parse_coord L (xy_lat r), parse_coord L (xy_lng r)) of
                      (Some a, Some b) \<Rightarrow> (Some a, Some b)
                    | _ \<Rightarrow> (None, None));
                 lat1 = (if lat0 = Some NaN then None else lat0);
                 lng1 = (if lng0 = Some NaN then None else lng0);
                 (lat, lng) = normalize_lat_lng lat1 lng1
             in xy_map(cid \<mapsto> \<lparr>geo_response_address = cell_text (xy_response_address r),
                                geo_lat = lat, geo_lng = lng\<rparr>)))"

definition load_xy :: "pylib \<Rightarrow> xy_row list option \<Rightarrow> (int \<rightharpoonup> geo)" where
  "load_xy L xy_csv = (case xy_csv of None \<Rightarrow> Map.empty | Some rows \<Rightarrow> fold (xy_step L) rows Map.empty)"

section \<open>The reconciler\<close>

text \<open>
  The keys of a remote record that the program reads by name: the number (code points
  32232, 34399), the name (27231, 27083, 21517, 31281) and \<^verbatim>\<open>_importdate\<close>.
\<close>

definition KEY_NO :: pystr where
  "KEY_NO = [32232, 34399]"

definition KEY_NAME :: pystr where
  "KEY_NAME = [27231, 27083, 21517, 31281]"

definition KEY_IMPORTDATE :: pystr where
  "KEY_IMPORTDATE = py ''_importdate''"

text \<open>
  The indexes \<^verbatim>\<open>api_by_no\<close> and \<^verbatim>\<open>api_by_name\<close>: a later record replaces an earlier one
  under the same key.
\<close>

definition record_name :: "pylib \<Rightarrow> pyval pydict \<Rightarrow> pystr" where
  "record_name L rec =
     strip (py_str L (if truthy (dict_get rec KEY_NAME) then dict_get rec KEY_NAME else PStr []))"

definition index_step ::
  "pylib \<Rightarrow> pyval pydict \<Rightarrow> (int \<rightharpoonup> pyval pydict) \<times> (pystr \<rightharpoonup> pyval pydict)
     \<Rightarrow> (int \<rightharpoonup> pyval pydict) \<times> (pystr \<rightharpoonup> pyval pydict)" where
  "index_step L rec idx =
     (let api_by_no = (case safe_int L (dict_get rec KEY_NO) of
                         None \<Rightarrow> fst idx
                       | Some no \<Rightarrow> (fst idx)(no \<mapsto> rec));
          name = record_name L rec;
          api_by_name = (if name \<noteq> [] then (snd idx)(name \<mapsto> rec) else snd idx)
      in (api_by_no, api_by_name))"

definition index_records ::
  "pylib \<Rightarrow> pyval pydict list \<Rightarrow> (int \<rightharpoonup> pyval pydict) \<times> (pystr \<rightharpoonup> pyval pydict)" where
  "index_records L records = fold (index_step L) records (Map.empty, Map.empty)"

text \<open>
  The history of a center: the year mapping of the first entry of the previous
  document whose identifier is \<open>cid\<close>, copied into an empty dictionary.
\<close>

definition history :: "pylib \<Rightarrow> prior_doc option \<Rightarrow> int \<Rightarrow> pyval pydict" where
  "history L existing cid =
     (case existing of
        None \<Rightarrow> []
      | Some doc \<Rightarrow>
          (case find (\<lambda>old. safe_int L (pc_id old) = Some cid) (pd_centers doc) of
             None \<Rightarrow> []
           | Some old \<Rightarrow> dict_update [] (pc_evaluation_by_year old)))"

text \<open>The legacy field of the roster row, merged when the pattern matches it.\<close>

definition merge_legacy :: "pylib \<Rightarrow> pystr option \<Rightarrow> pyval pydict \<Rightarrow> pyval pydict" where
  "merge_legacy L cell eval_by_year =
     (case LEGACY_EVAL_RE_match L (cell_text cell) of
        None \<Rightarrow> eval_by_year
      | Some (yr, grade) \<Rightarrow> AList.update yr (PStr (strip grade)) eval_by_year)"

text \<open>
  \<^verbatim>\<open>api_by_no.get(cid) or api_by_name.get(name)\<close>: the second lookup is the result when
  the first is \<^verbatim>\<open>None\<close> or an empty dictionary. \<open>found\<close> is the test \<^verbatim>\<open>if rec\<close>.
\<close>

definition found :: "pyval pydict option \<Rightarrow> bool" where
  "found rec = (case rec of None \<Rightarrow> False | Some d \<Rightarrow> d \<noteq> [])"

definition find_record ::
  "(int \<rightharpoonup> pyval pydict) \<times> (pystr \<rightharpoonup> pyval pydict) \<Rightarrow> int \<Rightarrow> pystr \<Rightarrow> pyval pydict option" where
  "find_record idx cid name = (if found (fst idx cid) then fst idx cid else snd idx name)"

text \<open>The year columns of the matched record, written over the mapping.\<close>

definition merge_remote :: "pylib \<Rightarrow> pyval pydict \<Rightarrow> pyval pydict \<Rightarrow> pyval pydict" where
  "merge_remote L rec eval_by_year =
     dict_update eval_by_year (map (\<lambda>(yr, grade). (yr, PStr grade)) (parse_eval_years L rec))"

definition importdate :: "pylib \<Rightarrow> pyval pydict \<Rightarrow> pystr option" where
  "importdate L rec =
     (case map_of rec KEY_IMPORTDATE of
        Some (PDict imp) \<Rightarrow>
          (let d = dict_get imp (py ''date'') in if truthy d then Some (py_str L d) else None)
      | _ \<Rightarrow> None)"

text \<open>
  The year mapping of a roster row, before it is sorted: history, then the legacy field,
  then the matched remote record.
\<close>

definition eval_by_year_of ::
  "pylib \<Rightarrow> prior_doc option \<Rightarrow> pyval pydict option \<Rightarrow> base_row \<Rightarrow> int \<Rightarrow> pyval pydict" where
  "eval_by_year_of L existing rec c cid =
     (let e1 = history L existing cid;
          e2 = merge_legacy L (row_legacy c) e1
      in case rec of
           None \<Rightarrow> e2
         | Some r \<Rightarrow> if r \<noteq> [] then merge_remote L r e2 else e2)"

text \<open>
  The dictionary appended to \<^verbatim>\<open>out_centers\<close> for a roster row whose identifier is
  \<open>cid\<close>; \<open>idx\<close> is the pair of \<^verbatim>\<open>api_by_no\<close> and \<^verbatim>\<open>api_by_name\<close>.
\<close>

definition snapshot ::
  "pylib \<Rightarrow> prior_doc option \<Rightarrow> (int \<rightharpoonup> geo)
     \<Rightarrow> (int \<rightharpoonup> pyval pydict) \<times> (pystr \<rightharpoonup> pyval pydict) \<Rightarrow> base_row \<Rightarrow> int
     \<Rightarrow> center_snapshot" where
  "snapshot L existing xy_map idx c cid =
     (let name = cell_text (row_name c);
          rec = find_record idx cid name;
          eval_by_year = eval_by_year_of L existing rec c cid;
          source_importdate = (case rec of
                                 None \<Rightarrow> None
                               | Some r \<Rightarrow> if r \<noteq> [] then importdate L r else None);
          geo = xy_map cid
      in \<lparr>cs_id = cid, cs_name = name,
          cs_district = cell_text (row_district c),
          cs_address = cell_text (row_address c),
          cs_phone = cell_text (row_phone c),
          cs_capacity_approved = cell_text (row_capacity_approved c),
          cs_capacity_current = cell_text (row_capacity_current c),
          cs_response_address = map_option geo_response_address geo,
          cs_lat = Option.bind geo geo_lat,
          cs_lng = Option.bind geo geo_lng,
          cs_evaluation_by_year = sort_key fst eval_by_year,
          cs_source_importdate = source_importdate\<rparr>)"

text \<open>
  One turn of the loop over the roster, on the pair of \<^verbatim>\<open>out_centers\<close> and
  \<^verbatim>\<open>unmatched\<close>: a row whose identifier does not parse is passed over.
\<close>

definition reconcile_row ::
  "pylib \<Rightarrow> prior_doc option \<Rightarrow> (int \<rightharpoonup> geo)
     \<Rightarrow> (int \<rightharpoonup> pyval pydict) \<times> (pystr \<rightharpoonup> pyval pydict) \<Rightarrow> base_row
     \<Rightarrow> center_snapshot list \<times> int list \<Rightarrow> center_snapshot list \<times> int list" where
  "reconcile_row L existing xy_map idx c st =
     (case safe_int L (cell_val (row_seq c)) of
        None \<Rightarrow> st
      | Some cid \<Rightarrow>
          (fst st @ [snapshot L existing xy_map idx c cid],
           if found (find_record idx cid (cell_text (row_name c))) then snd st
           else snd st @ [cid]))"

definition reconcile ::
  "pylib \<Rightarrow> prior_doc option \<Rightarrow> (int \<rightharpoonup> geo)
     \<Rightarrow> (int \<rightharpoonup> pyval pydict) \<times> (pystr \<rightharpoonup> pyval pydict) \<Rightarrow> base_row list
     \<Rightarrow> center_snapshot list \<times> int list" where
  "reconcile L existing xy_map idx centers =
     fold (reconcile_row L existing xy_map idx) centers ([], [])"

section \<open>The snapshot writer and the whole run\<close>

definition NOTES :: pystr where
  "NOTES = py ''evaluation_by_year uses Minguo year as string keys, e.g. '' @ [39] @ py ''114''
     @ [39] @ py ''. Values like '' @ [39, 20778] @ py ''/'' @ [30002] @ py ''/'' @ [20057]
     @ py ''/'' @ [19993] @ py ''/'' @ [24050, 27463, 26989] @ py ''/...'' @ [39]
     @ py '' are kept as-is.''"

text \<open>
  \<^verbatim>\<open>now_taipei_iso\<close>, at the instant \<open>now\<close>: the reading at the fixed offset of eight
  hours, cut to whole seconds.
\<close>

definition now_taipei_iso :: "pylib \<Rightarrow> int \<Rightarrow> pystr" where
  "now_taipei_iso L now =
     (let tz = timedelta_hours 8; d = datetime_now now tz
      in isoformat L (d\<lparr>wall := wall d - wall d mod 1000000\<rparr>))"

text \<open>
  The end of \<^verbatim>\<open>main\<close>: the text of the file is compared with the serialized document,
  and the document and a newline are written when they differ. The result is what is
  reported and the text of the file afterwards.
\<close>

datatype outcome = Skipped | MissingCenters | NoChange | Updated

definition write_if_changed :: "pystr option \<Rightarrow> pystr \<Rightarrow> outcome \<times> pystr option" where
  "write_if_changed old_json new_json =
     (if old_json = Some new_json then (NoChange, old_json)
      else (Updated, Some (new_json @ [10])))"

definition exit_code :: "outcome \<Rightarrow> nat" where
  "exit_code r = (case r of MissingCenters \<Rightarrow> 2 | _ \<Rightarrow> 0)"

text \<open>
  What a run reads: the environment variable, the clock at the three places where it is
  read, the output file, the two tables (\<open>None\<close> for a file that is not there) and the
  endpoint.
\<close>

record world =
  w_force_update :: "pystr option"
  w_now_gate :: int
  w_now_fetched_at :: int
  w_now_last_update :: int
  w_output_json :: "output_file option"
  w_centers_csv :: "base_row list option"
  w_xy_csv :: "xy_row list option"
  w_server :: "nat \<Rightarrow> response"

definition build_document ::
  "pylib \<Rightarrow> world \<Rightarrow> api_meta \<Rightarrow> center_snapshot list \<times> int list \<Rightarrow> document" where
  "build_document L w meta st =
     \<lparr>d_meta =
        \<lparr>m_source = API_BASE,
         m_fetched_at = now_taipei_iso L (w_now_fetched_at w),
         m_last_successful_update = now_taipei_iso L (w_now_last_update w),
         m_update_interval_days = UPDATE_INTERVAL_DAYS,
         m_api_reported_count = reported_count meta,
         m_notes = NOTES,
         m_unmatched_center_ids_in_base_list = take 50 (snd st),
         m_unmatched_count = length (snd st)\<rparr>,
      d_centers = fst st\<rparr>"

text \<open>
  \<^verbatim>\<open>main\<close>: \<open>None\<close> when the run never ends, \<open>Inl\<close> the exception that ends it, and
  otherwise what it reports and the text of the output file afterwards.
\<close>

definition main :: "pylib \<Rightarrow> world \<Rightarrow> (error + outcome \<times> pystr option) option" where
  "main L w =
     (let old_json = map_option file_text (w_output_json w) in
      case load_existing_json (w_output_json w) of
        Inl e \<Rightarrow> Some (Inl e)
      | Inr existing \<Rightarrow>
          (case should_run_update L (w_force_update w) (w_now_gate w) existing of
             Inl e \<Rightarrow> Some (Inl e)
           | Inr False \<Rightarrow> Some (Inr (Skipped, old_json))
           | Inr True \<Rightarrow>
               (case w_centers_csv w of
                  None \<Rightarrow> Some (Inr (MissingCenters, old_json))
                | Some centers \<Rightarrow>
                    (let xy_map = load_xy L (w_xy_csv w) in
                     case fetch_all_records L (w_server w) of
                       None \<Rightarrow> None
                     | Some (Inl e) \<Rightarrow> Some (Inl e)
                     | Some (Inr (records, meta)) \<Rightarrow>
                         (let idx = index_records L records;
                              st = reconcile L existing xy_map idx centers;
                              out = build_document L w meta st
                          in Some (Inr (write_if_changed old_json (json_dumps L out))))))))"

section \<open>Vocabulary of the properties\<close>

text \<open>
  The magnitude of a coordinate exceeds 90, or stays within 90. Neither holds of the
  not-a-number value.
\<close>

definition exceeds_90 :: "pyfloat \<Rightarrow> bool" where
  "exceeds_90 v =
     (case v of Finite x \<Rightarrow> x < - 90 \<or> 90 < x | PosInf \<Rightarrow> True | NegInf \<Rightarrow> True | NaN \<Rightarrow> False)"

definition within_90 :: "pyfloat \<Rightarrow> bool" where
  "within_90 v = (case v of Finite x \<Rightarrow> - 90 \<le> x \<and> x \<le> 90 | _ \<Rightarrow> False)"

text \<open>
  The instant (microseconds, UTC) that a stored timestamp denotes, the fixed offset of
  eight hours assumed when it carries none.
\<close>

definition stored_instant :: "datetime \<Rightarrow> int" where
  "stored_instant d = wall d - (case tzinfo d of None \<Rightarrow> timedelta_hours 8 | Some off \<Rightarrow> off)"

text \<open>
  For a sequence of pages: the records of the first \<open>k\<close> pages; the count of page \<open>k\<close> as
  the loop reads it (the running total where the page has no count, the conversion of
  the count otherwise, which may raise); and what the loop does at page \<open>k\<close>: it ends
  where the running total has reached the count, and goes on to the next page where
  the count is converted and not reached.
\<close>

definition collected :: "(nat \<Rightarrow> page) \<Rightarrow> nat \<Rightarrow> pyval pydict list" where
  "collected pages k = concat (map (\<lambda>i. pg_results (pages i)) [0..<k])"

definition page_count :: "pylib \<Rightarrow> (nat \<Rightarrow> page) \<Rightarrow> nat \<Rightarrow> error + int" where
  "page_count L pages k =
     (case pg_count (pages k) of
        None \<Rightarrow> Inr (int (length (collected pages (Suc k))))
      | Some c \<Rightarrow> py_int L c)"

definition reached :: "pylib \<Rightarrow> (nat \<Rightarrow> page) \<Rightarrow> nat \<Rightarrow> bool" where
  "reached L pages k =
     (case page_count L pages k of
        Inl e \<Rightarrow> False
      | Inr c \<Rightarrow> c \<le> int (length (collected pages (Suc k))))"

definition continues :: "pylib \<Rightarrow> (nat \<Rightarrow> page) \<Rightarrow> nat \<Rightarrow> bool" where
  "continues L pages k =
     (case page_count L pages k of
        Inl e \<Rightarrow> False
      | Inr c \<Rightarrow> int (length (collected pages (Suc k))) < c)"

text \<open>The metadata taken from a page, and the metadata after a page has been read.\<close>

definition first_meta :: "page \<Rightarrow> api_meta" where
  "first_meta p = \<lparr>api_url = API_BASE, reported_count = get_or_none (pg_count p),
                    reported_limit = get_or_none (pg_limit p),
                    reported_offset = get_or_none (pg_offset p)\<rparr>"


text \<open>
  The layers of a year mapping: the history is the baseline, the legacy field (year and
  grade, when the pattern matches) overwrites its one year, and the year columns of the
  remote record overwrite last.
\<close>

definition layered ::
  "(pystr \<rightharpoonup> pyval) \<Rightarrow> (pystr \<times> pystr) option \<Rightarrow> (pystr \<rightharpoonup> pystr) \<Rightarrow> (pystr \<rightharpoonup> pyval)" where
  "layered hist legacy remote y =
     (case remote y of
        Some g \<Rightarrow> Some (PStr g)
      | None \<Rightarrow>
          (case legacy of
             Some (yr, grade) \<Rightarrow> if yr = y then Some (PStr (strip grade)) else hist y
           | None \<Rightarrow> hist y))"

text \<open>The year columns that the looked-up record supplies: none when no record is found.\<close>

definition remote_years :: "pylib \<Rightarrow> pyval pydict option \<Rightarrow> (pystr \<rightharpoonup> pystr)" where
  "remote_years L rec =
     (case rec of
        None \<Rightarrow> Map.empty
      | Some r \<Rightarrow> if r \<noteq> [] then map_of (parse_eval_years L r) else Map.empty)"

text \<open>
  The rows that the remote list does not know, said on the list of records itself: a
  record matches a roster row when its number is the identifier of the row, or when its
  name is the name of the row, both stripped, and that name is not empty. The unmatched
  rows are the identifiers, in the order of the roster, of the rows whose identifier
  parses and that no record matches.
\<close>

definition matches_row :: "pylib \<Rightarrow> pyval pydict \<Rightarrow> base_row \<Rightarrow> int \<Rightarrow> bool" where
  "matches_row L rec c cid \<longleftrightarrow>
     safe_int L (dict_get rec KEY_NO) = Some cid
     \<or> (cell_text (row_name c) \<noteq> [] \<and> record_name L rec = cell_text (row_name c))"

definition is_matched :: "pylib \<Rightarrow> pyval pydict list \<Rightarrow> base_row \<Rightarrow> int \<Rightarrow> bool" where
  "is_matched L records c cid \<longleftrightarrow> (\<exists>rec\<in>set records. matches_row L rec c cid)"

definition unmatched_rows :: "pylib \<Rightarrow> pyval pydict list \<Rightarrow> base_row list \<Rightarrow> int list" where
  "unmatched_rows L records centers =
     List.map_filter
       (\<lambda>c. case safe_int L (cell_val (row_seq c)) of
               None \<Rightarrow> None
             | Some cid \<Rightarrow> if is_matched L records c cid then None else Some cid)
       centers"

section \<open>Examples\<close>

text \<open>
  A library for the examples. It agrees with the interpreter on the values the examples
  use: \<^verbatim>\<open>str\<close> of \<^verbatim>\<open>None\<close>, of a truth value and of an integer; \<^verbatim>\<open>int\<close> of a cell that
  is a plain ASCII numeral (an optional sign and digits) and of a cell that holds a
  letter or a slash; \<^verbatim>\<open>float\<close> of \<^verbatim>\<open>nan\<close> and of a plain decimal numeral, read as the
  number it writes; the ASCII digits as the decimal digits; and \<^verbatim>\<open>fromisoformat\<close> of two
  timestamps. What no example uses is left unspecified: \<^verbatim>\<open>str\<close> of a float, a list or a
  dictionary, and the two functions that render text.
\<close>

fun nat_digits :: "nat \<Rightarrow> nat \<Rightarrow> pystr" where
  "nat_digits 0 n = []"
| "nat_digits (Suc fuel) n =
     (if n < 10 then [48 + n] else nat_digits fuel (n div 10) @ [48 + n mod 10])"

definition example_repr :: "pyval \<Rightarrow> pystr" where
  "example_repr v =
     (case v of
        PNone \<Rightarrow> py ''None''
      | PBool b \<Rightarrow> (if b then py ''True'' else py ''False'')
      | PInt n \<Rightarrow> (if n < 0 then 45 # nat_digits (Suc (nat (- n))) (nat (- n))
                   else nat_digits (Suc (nat n)) (nat n))
      | _ \<Rightarrow> undefined)"

definition ascii_digits :: "pystr \<Rightarrow> nat option" where
  "ascii_digits s =
     (if s \<noteq> [] \<and> list_all (\<lambda>c. 48 \<le> c \<and> c \<le> 57) s
      then Some (foldl (\<lambda>a c. 10 * a + (c - 48)) 0 s) else None)"

definition example_int :: "pystr \<Rightarrow> int option" where
  "example_int s =
     (case s of
        [] \<Rightarrow> None
      | c # t \<Rightarrow>
          if c = 45 then map_option (\<lambda>n. - int n) (ascii_digits t)
          else if c = 43 then map_option int (ascii_digits t)
          else map_option int (ascii_digits s))"

definition example_float :: "pystr \<Rightarrow> pyfloat option" where
  "example_float s =
     (if s = py ''nan'' then Some NaN
      else case (ascii_digits (takeWhile (\<lambda>c. c \<noteq> 46) s), dropWhile (\<lambda>c. c \<noteq> 46) s) of
             (Some a, []) \<Rightarrow> Some (Finite (real a))
           | (Some a, dot # t) \<Rightarrow>
               (case ascii_digits t of
                  Some b \<Rightarrow> Some (Finite (real a + real b / 10 ^ length t))
                | None \<Rightarrow> None)
           | _ \<Rightarrow> None)"

text \<open>
  The wall-clock readings are those of midnight and of one o'clock on 4 January 2026,
  in microseconds.
\<close>

definition example_fromisoformat :: "pystr \<Rightarrow> datetime option" where
  "example_fromisoformat s =
     (if s = py ''2026-01-04T00:00:00'' then Some \<lparr>wall = 63903081600000000, tzinfo = None\<rparr>
      else if s = py ''2026-01-04T01:00:00+09:00''
        then Some \<lparr>wall = 63903085200000000, tzinfo = Some (timedelta_hours 9)\<rparr>
      else None)"

definition example_lib :: pylib where
  "example_lib =
     \<lparr>repr_of = example_repr, int_of_str = example_int, float_of_str = example_float,
      isdecimal = (\<lambda>c. 48 \<le> c \<and> c \<le> 57), fromisoformat = example_fromisoformat,
      isoformat = undefined, json_dumps = undefined\<rparr>"

text \<open>
  A world with no output file, an empty roster, no geocode table and an endpoint that
  reports no records; the clock stands at midnight of 14 January 2026 at the offset of
  eight hours.
\<close>

definition example_world :: world where
  "example_world =
     \<lparr>w_force_update = None, w_now_gate = 63903916800000000,
      w_now_fetched_at = 63903916800000000, w_now_last_update = 63903916800000000,
      w_output_json = None, w_centers_csv = Some [], w_xy_csv = None,
      w_server = (\<lambda>offset. Page \<lparr>pg_count = Some (PInt 0), pg_limit = Some (PInt 1000),
                                    pg_offset = Some (PInt (int offset)), pg_results = []\<rparr>)\<rparr>"

text \<open>
  The text that a run in the example world writes: the serialized document of an empty
  roster, and a newline.
\<close>

definition example_text :: "pylib \<Rightarrow> pystr" where
  "example_text L =
     json_dumps L
       (build_document L example_world
          \<lparr>api_url = API_BASE, reported_count = PInt 0, reported_limit = PInt 1000,
            reported_offset = PInt 0\<rparr> ([], [])) @ [10]"

text \<open>An output file cut off in the middle, which the decoder rejects.\<close>

definition malformed_file :: output_file where
  "malformed_file = \<lparr>file_text = py ''{ meta: {'', file_json = None\<rparr>"

text \<open>A previous document last updated at midnight of 4 January 2026, with a space as separator.\<close>

definition example_prior :: prior_doc where
  "example_prior =
     \<lparr>pd_last_successful_update = PStr (py ''2026-01-04 00:00:00''), pd_centers = []\<rparr>"

text \<open>
  Four endpoints: one serves three records on two pages; one reports one record and
  never serves it; one fails after the first page; and one serves a record on a page
  whose count is \<^verbatim>\<open>null\<close>.
\<close>

definition example_pages :: "nat \<Rightarrow> page" where
  "example_pages k =
     (if k = 0
      then \<lparr>pg_count = Some (PInt 3), pg_limit = Some (PInt 1000), pg_offset = Some (PInt 0),
             pg_results = [[(KEY_NO, PInt 1)], [(KEY_NO, PInt 2)]]\<rparr>
      else \<lparr>pg_count = Some (PInt 3), pg_limit = Some (PInt 1000), pg_offset = Some (PInt 1000),
             pg_results = [[(KEY_NO, PInt 3)]]\<rparr>)"







text \<open>
  A roster row with the given identifier cell, name and legacy field; a row of the
  geocode table with the identifier 0; a previous document in which center 5 has the
  grade of code point 20057 for the year 111; and a remote record of number 5 whose
  column of the year 111 holds the grade of code point 19993.
\<close>

definition roster_row :: "pystr \<Rightarrow> pystr \<Rightarrow> pystr option \<Rightarrow> base_row" where
  "roster_row seq name legacy =
     \<lparr>row_seq = Some seq, row_name = Some name, row_district = Some (py ''D''),
      row_address = Some (py ''A''), row_phone = Some (py ''P''),
      row_capacity_approved = Some (py ''40''), row_capacity_current = Some (py ''35''),
      row_legacy = legacy\<rparr>"


definition prior_five :: prior_doc where
  "prior_five =
     \<lparr>pd_last_successful_update = PStr (py ''2026-01-04 00:00:00''),
      pd_centers = [\<lparr>pc_id = PInt 5, pc_evaluation_by_year = [(py ''111'', PStr [20057])]\<rparr>]\<rparr>"

definition remote_five :: "pyval pydict" where
  "remote_five = [(KEY_NO, PInt 5), (KEY_NAME, PStr (py ''Y'')), (py ''111'' @ [24180], PStr [19993])]"

text \<open>
  A previous document with two entries of the identifier 5: the first has the grade of
  code point 20057 for the year 111, the second the grade of code point 30002 for the
  year 112.
\<close>

definition prior_twice :: prior_doc where
  "prior_twice =
     \<lparr>pd_last_successful_update = PStr (py ''2026-01-04 00:00:00''),
      pd_centers = [\<lparr>pc_id = PInt 5, pc_evaluation_by_year = [(py ''111'', PStr [20057])]\<rparr>,
                    \<lparr>pc_id = PInt 5, pc_evaluation_by_year = [(py ''112'', PStr [30002])]\<rparr>]\<rparr>"

section \<open>Properties\<close>

subsection \<open>The geo normalizer\<close>

lemma float_gt_abs: "float_gt (float_abs v) 90 = exceeds_90 v"
  by (cases v) (auto simp: exceeds_90_def)

lemma float_le_abs: "float_le (float_abs v) 90 = within_90 v"
  by (cases v) (auto simp: within_90_def)

text \<open>
  C6. The normalizer swaps latitude and longitude when both are present, the magnitude of
  the latitude exceeds 90 and that of the longitude does not; in every other case,
  also when one of them is absent, it returns the pair unchanged.
\<close>

theorem normalize_lat_lng_swaps:
  "normalize_lat_lng lat lng =
     (case (lat, lng) of
        (Some a, Some b) \<Rightarrow>
          if exceeds_90 a \<and> within_90 b then (Some b, Some a) else (Some a, Some b)
      | _ \<Rightarrow> (lat, lng))"
  by (cases lat; cases lng) (simp_all add: float_gt_abs float_le_abs)

theorem normalize_lat_lng_swaps_witness:
  "normalize_lat_lng (Some (Finite 121.5)) (Some (Finite 25)) = (Some (Finite 25), Some (Finite 121.5))
   \<and> normalize_lat_lng (Some (Finite 25)) (Some (Finite 121.5)) = (Some (Finite 25), Some (Finite 121.5))
   \<and> normalize_lat_lng None (Some (Finite 121.5)) = (None, Some (Finite 121.5))"
  using normalize_lat_lng_swaps [of "Some (Finite 121.5)" "Some (Finite 25)"]
    normalize_lat_lng_swaps [of "Some (Finite 25)" "Some (Finite 121.5)"]
    normalize_lat_lng_swaps [of None "Some (Finite 121.5)"]
  by (simp add: exceeds_90_def within_90_def del: normalize_lat_lng.simps)

subsection \<open>The remote loader\<close>












text \<open>
  A page is of one of three kinds: the loop goes on after it, or it returns at it, or the
  conversion of its count raises. With the failed response these are the four cases of
  an endpoint.
\<close>

lemma page_kinds:
  "continues L pages k \<or> reached L pages k \<or> (\<exists>e. page_count L pages k = Inl e)"
  by (cases "page_count L pages k") (auto simp: continues_def reached_def)





subsection \<open>The previous document and the gate\<close>

lemma example_world_fetch:
  "fetch_all_records L (w_server example_world) =
     Some (Inr ([], \<lparr>api_url = API_BASE, reported_count = PInt 0, reported_limit = PInt 1000,
                      reported_offset = PInt 0\<rparr>))"
  unfolding fetch_all_records_def
  by (subst fetch_loop.simps) (simp add: example_world_def py_int_def get_or_none_def)

lemma main_absent_runs:
  assumes "w_output_json w = None" and "w_centers_csv w = Some centers"
      and "fetch_all_records L (w_server w) = Some (Inr (records, meta))"
  shows "main L w =
           Some (Inr (Updated,
             Some (json_dumps L (build_document L w meta
                     (reconcile L None (load_xy L (w_xy_csv w)) (index_records L records) centers))
                   @ [10])))"
  using assms
  by (simp add: main_def load_existing_json_def should_run_update_def write_if_changed_def)

text \<open>
  C1, as the code has it. An output file that the decoder rejects is not treated like a
  missing one: the decoder's exception leaves \<^verbatim>\<open>load_existing_json\<close> and \<^verbatim>\<open>main\<close>, so
  the run ends with it, whatever the environment, the clock, the tables and the endpoint
  are, and nothing is written. For a missing file the loader returns \<^verbatim>\<open>None\<close>, the
  gate permits the run and no history is seeded.
\<close>

theorem malformed_prior_document_aborts:
  "main L (w\<lparr>w_output_json := Some (f\<lparr>file_json := None\<rparr>)\<rparr>) = Some (Inl JSONDecodeError)
   \<and> load_existing_json None = Inr None
   \<and> should_run_update L force now None = Inr True
   \<and> history L None cid = []"
  by (simp add: main_def load_existing_json_def should_run_update_def history_def)

theorem malformed_prior_document_aborts_witness:
  "main example_lib (example_world\<lparr>w_output_json := Some malformed_file\<rparr>) = Some (Inl JSONDecodeError)
   \<and> load_existing_json None = Inr None
   \<and> should_run_update example_lib None 63903916800000000 None = Inr True
   \<and> history example_lib None 5 = []"
  using malformed_prior_document_aborts [where L = example_lib and w = example_world
      and f = malformed_file and force = None and now = 63903916800000000 and cid = 5]
  by (simp add: malformed_file_def)

text \<open>
  The claim fails on the example: with the malformed file the run ends with the
  decoder's exception, where the same run without an output file goes on and writes.
\<close>

theorem malformed_prior_document_counterexample:
  "main example_lib (example_world\<lparr>w_output_json := Some malformed_file\<rparr>) = Some (Inl JSONDecodeError)
   \<and> main example_lib (example_world\<lparr>w_output_json := None\<rparr>) \<noteq> Some (Inl JSONDecodeError)"
proof -
  have a: "main example_lib (example_world\<lparr>w_output_json := Some malformed_file\<rparr>) = Some (Inl JSONDecodeError)"
    by (simp add: main_def load_existing_json_def malformed_file_def)
  have "w_centers_csv (example_world\<lparr>w_output_json := None\<rparr>) = Some []"
    by (simp add: example_world_def)
  moreover have "fetch_all_records example_lib (w_server (example_world\<lparr>w_output_json := None\<rparr>)) =
     Some (Inr ([], \<lparr>api_url = API_BASE, reported_count = PInt 0, reported_limit = PInt 1000,
                      reported_offset = PInt 0\<rparr>))"
    using example_world_fetch by simp
  ultimately have b: "main example_lib (example_world\<lparr>w_output_json := None\<rparr>) \<noteq> Some (Inl JSONDecodeError)"
    by (subst main_absent_runs) simp_all
  from a b show ?thesis by simp
qed

text \<open>
  C5. With the force flag unset, a previous document and a timestamp that parses (a space
  between date and time is read as the letter T; the offset of eight hours is assumed
  when the timestamp carries none), the gate permits the run if and only if at least ten
  days have passed between the stored instant and the current one. Exactly ten days
  permit the run; nine days and twenty-three hours do not.
\<close>

theorem should_run_update_after_ten_days:
  assumes "strip (case force of None \<Rightarrow> [] | Some s \<Rightarrow> s) \<noteq> py ''1''"
      and "truthy (pd_last_successful_update doc)"
      and "fromisoformat L (replace_space_T (py_str L (pd_last_successful_update doc))) = Some parsed"
  shows "should_run_update L force now (Some doc)
           = Inr (now - stored_instant parsed \<ge> 10 * 86400000000)
         \<and> (now - stored_instant parsed = 10 * 86400000000
              \<longrightarrow> should_run_update L force now (Some doc) = Inr True)
         \<and> (now - stored_instant parsed = 9 * 86400000000 + 23 * 3600000000
              \<longrightarrow> should_run_update L force now (Some doc) = Inr False)
         \<and> replace_space_T (date @ [32] @ time) = replace_space_T (date @ [84] @ time)"
proof -
  have "should_run_update L force now (Some doc) = Inr (now - stored_instant parsed \<ge> 10 * 86400000000)"
    using assms
    by (cases "tzinfo parsed")
       (auto simp add: should_run_update_def stored_instant_def datetime_sub_def datetime_now_def
          timedelta_days_def timedelta_hours_def UPDATE_INTERVAL_DAYS_def Let_def)
  then show ?thesis by (simp add: replace_space_T_def)
qed

theorem should_run_update_after_ten_days_witness:
  "should_run_update example_lib None 63903916800000000 (Some example_prior) = Inr True
   \<and> should_run_update example_lib None 63903913200000000 (Some example_prior) = Inr False
   \<and> should_run_update example_lib (Some (py ''0'')) 63903916800000001 (Some example_prior) = Inr True"
  using should_run_update_after_ten_days [where L = example_lib and force = None
      and doc = example_prior and now = 63903916800000000
      and parsed = "\<lparr>wall = 63903081600000000, tzinfo = None\<rparr>"]
    should_run_update_after_ten_days [where L = example_lib and force = None
      and doc = example_prior and now = 63903913200000000
      and parsed = "\<lparr>wall = 63903081600000000, tzinfo = None\<rparr>"]
    should_run_update_after_ten_days [where L = example_lib and force = "Some (py ''0'')"
      and doc = example_prior and now = 63903916800000001
      and parsed = "\<lparr>wall = 63903081600000000, tzinfo = None\<rparr>"]
  by (simp add: example_prior_def example_lib_def example_fromisoformat_def py_str_def
        replace_space_T_def py_def strip_def isspace_def stored_instant_def timedelta_hours_def)

subsection \<open>The snapshot writer\<close>

lemma main_forced_runs:
  assumes "w_force_update w = Some (py ''1'')" and "w_output_json w = Some f"
      and "file_json f = Some doc" and "w_centers_csv w = Some centers"
      and "fetch_all_records L (w_server w) = Some (Inr (records, meta))"
  shows "main L w =
           Some (Inr (write_if_changed (Some (file_text f))
             (json_dumps L (build_document L w meta
                (reconcile L (Some doc) (load_xy L (w_xy_csv w)) (index_records L records) centers)))))"
  using assms
  by (simp add: main_def load_existing_json_def should_run_update_def strip_def isspace_def py_def)

text \<open>
  C2, where the code departs from it. The writer appends a newline to the text it
  writes and compares the file with the text that has none: on a file that it wrote
  itself for the same document the comparison fails, and the file is written again. So
  does the whole run: in the example world the first run writes the file; a second run
  with the same tables, endpoint and clock, forced past the gate, finds that file,
  builds the same document, and reports an update again instead of no change.
\<close>

theorem writer_rewrites_its_own_output:
  "snd (write_if_changed None new_json) = Some (new_json @ [10])
   \<and> write_if_changed (Some (new_json @ [10])) new_json = (Updated, Some (new_json @ [10]))
   \<and> main L example_world = Some (Inr (Updated, Some (example_text L)))
   \<and> main L (example_world\<lparr>w_force_update := Some (py ''1''),
          w_output_json := Some \<lparr>file_text = example_text L, file_json = Some doc\<rparr>\<rparr>)
       = Some (Inr (Updated, Some (example_text L)))"
proof -
  have a: "main L example_world = Some (Inr (Updated, Some (example_text L)))"
    by (subst main_absent_runs [where centers = "[]", OF _ _ example_world_fetch])
       (simp_all add: example_world_def example_text_def reconcile_def build_document_def)
  let ?w = "example_world\<lparr>w_force_update := Some (py ''1''),
          w_output_json := Some \<lparr>file_text = example_text L, file_json = Some doc\<rparr>\<rparr>"
  have f: "fetch_all_records L (w_server ?w) =
     Some (Inr ([], \<lparr>api_url = API_BASE, reported_count = PInt 0, reported_limit = PInt 1000,
                      reported_offset = PInt 0\<rparr>))"
    using example_world_fetch by simp
  have c: "w_centers_csv ?w = Some []"
    by (simp add: example_world_def)
  have "main L ?w = Some (Inr (write_if_changed (Some (example_text L))
             (json_dumps L (build_document L ?w
                \<lparr>api_url = API_BASE, reported_count = PInt 0, reported_limit = PInt 1000,
                  reported_offset = PInt 0\<rparr>
                (reconcile L (Some doc) (load_xy L (w_xy_csv ?w)) (index_records L []) [])))))"
    by (subst main_forced_runs [where doc = doc and centers = "[]"
          and f = "\<lparr>file_text = example_text L, file_json = Some doc\<rparr>", OF _ _ _ c f])
       simp_all
  then have b: "main L ?w = Some (Inr (Updated, Some (example_text L)))"
    by (simp add: write_if_changed_def example_text_def reconcile_def build_document_def
          example_world_def)
  from a b show ?thesis by (simp add: write_if_changed_def)
qed


subsection \<open>The library of the examples\<close>

lemma example_lib_sel:
  "repr_of example_lib = example_repr"
  "int_of_str example_lib = example_int"
  "float_of_str example_lib = example_float"
  "isdecimal example_lib c = (48 \<le> c \<and> c \<le> 57)"
  "fromisoformat example_lib = example_fromisoformat"
  by (simp_all add: example_lib_def)

lemma safe_int_example_text:
  "safe_int example_lib (PStr s) = example_int (strip s)"
  by (simp add: safe_int_def py_str_def example_lib_def)

lemma safe_int_example_five: "safe_int example_lib (PInt 5) = Some 5"
  by code_simp

lemma index_example:
  "fst (index_records example_lib [remote_five]) 5 = Some remote_five"
  by (simp add: index_records_def index_step_def remote_five_def dict_get_def
        safe_int_example_five Let_def)

lemma parse_eval_years_example:
  "parse_eval_years example_lib remote_five = [(py ''111'', [19993])]"
  by (simp add: parse_eval_years_def remote_five_def KEY_NO_def KEY_NAME_def strip_def isspace_def
        py_def example_lib_sel py_str_def)

subsection \<open>The reconciler\<close>

lemma map_of_dict_update:
  "map_of (dict_update d other) = map_of d ++ map_of (rev other)"
proof (induction other arbitrary: d)
  case Nil
  then show ?case by (simp add: dict_update_def)
next
  case (Cons p other)
  obtain k v where p: "p = (k, v)" by (cases p)
  have "map_of (dict_update d (p # other)) = map_of (dict_update (AList.update k v d) other)"
    by (simp add: dict_update_def p)
  also have "\<dots> = (map_of d)(k \<mapsto> v) ++ map_of (rev other)"
    by (simp only: Cons.IH update_conv')
  also have "\<dots> = map_of d ++ map_of (rev (p # other))"
    by (rule ext) (simp add: p map_add_def split: option.splits)
  finally show ?case .
qed

lemma distinct_dict_update:
  "distinct (map fst d) \<Longrightarrow> distinct (map fst (dict_update d other))"
proof (induction other arbitrary: d)
  case Nil
  then show ?case by (simp add: dict_update_def)
next
  case (Cons p other)
  from Cons.IH [of "AList.update (fst p) (snd p) d"] Cons.prems
  show ?case by (simp add: dict_update_def distinct_update split_beta)
qed

lemma map_of_rev_distinct:
  "distinct (map fst xs) \<Longrightarrow> map_of (rev xs) = map_of xs"
  by (subst map_of_inject_set) (simp_all add: rev_map [symmetric])

lemma distinct_sort_key_fst:
  "distinct (map fst xs) \<Longrightarrow> distinct (map fst (sort_key fst xs))"
  by (simp add: distinct_map)

lemma map_of_sort_key:
  "distinct (map fst xs) \<Longrightarrow> map_of (sort_key fst xs) = map_of xs"
  by (subst map_of_inject_set) (simp_all add: distinct_sort_key_fst)

lemma distinct_parse_eval_years: "distinct (map fst (parse_eval_years L rec))"
proof -
  have "distinct (map fst acc) \<Longrightarrow>
          distinct (map fst (fold (\<lambda>(k, v) years.
             case YEAR_COL_RE_match L (strip k) of
               None \<Rightarrow> years
             | Some yr \<Rightarrow> AList.update yr (if v = PNone then [] else strip (py_str L v)) years) rec acc))"
    for acc
    by (induction rec arbitrary: acc) (auto simp: distinct_update split: option.splits)
  then show ?thesis by (simp add: parse_eval_years_def)
qed

lemma distinct_history: "distinct (map fst (history L existing cid))"
  by (simp add: history_def distinct_dict_update split: option.splits)

lemma distinct_merge_legacy:
  "distinct (map fst e) \<Longrightarrow> distinct (map fst (merge_legacy L cell e))"
  by (simp add: merge_legacy_def distinct_update split: option.splits)

lemma map_of_merge_legacy:
  "map_of (merge_legacy L cell e) y =
     (case LEGACY_EVAL_RE_match L (cell_text cell) of
        Some (yr, grade) \<Rightarrow> if yr = y then Some (PStr (strip grade)) else map_of e y
      | None \<Rightarrow> map_of e y)"
  by (simp add: merge_legacy_def update_conv' split: option.splits)

lemma map_of_merge_remote:
  "map_of (merge_remote L r e) y =
     (case map_of (parse_eval_years L r) y of Some g \<Rightarrow> Some (PStr g) | None \<Rightarrow> map_of e y)"
proof -
  have d: "distinct (map fst (map (\<lambda>(yr, grade). (yr, PStr grade)) (parse_eval_years L r)))"
    using distinct_parse_eval_years [of L r] by (simp add: comp_def split_beta)
  show ?thesis
    by (simp add: merge_remote_def map_of_dict_update map_of_rev_distinct [OF d] map_of_map
          map_add_def split: option.splits)
qed

lemma distinct_eval_by_year_of:
  "distinct (map fst (eval_by_year_of L existing rec c cid))"
  by (simp add: eval_by_year_of_def merge_remote_def distinct_dict_update distinct_merge_legacy
        distinct_history Let_def split: option.splits)

lemma map_of_eval_by_year_of:
  "map_of (eval_by_year_of L existing rec c cid) =
     layered (map_of (history L existing cid))
       (LEGACY_EVAL_RE_match L (cell_text (row_legacy c))) (remote_years L rec)"
  by (rule ext)
     (simp add: eval_by_year_of_def layered_def remote_years_def map_of_merge_remote
        map_of_merge_legacy Let_def split: option.splits)

lemma snapshot_evaluation_by_year:
  "cs_evaluation_by_year (snapshot L existing xy_map idx c cid) =
     sort_key fst (eval_by_year_of L existing (find_record idx cid (cell_text (row_name c))) c cid)"
  by (simp add: snapshot_def Let_def)

text \<open>
  C4. The year mapping of the snapshot of a roster row is layered: the history from the
  previous document is the baseline, a legacy field that the pattern matches overwrites
  its one year, and the year columns of the matched remote record overwrite last; so for
  a year that the remote record supplies, the remote grade is the final one.
\<close>

theorem year_mapping_precedence:
  "map_of (cs_evaluation_by_year (snapshot L existing xy_map idx c cid)) =
     layered (map_of (history L existing cid))
       (LEGACY_EVAL_RE_match L (cell_text (row_legacy c)))
       (remote_years L (find_record idx cid (cell_text (row_name c))))
   \<and> (remote_years L (find_record idx cid (cell_text (row_name c))) y = Some g \<longrightarrow>
        map_of (cs_evaluation_by_year (snapshot L existing xy_map idx c cid)) y = Some (PStr g))
   \<and> (safe_int L (cell_val (row_seq c)) = Some cid \<longrightarrow>
        fst (reconcile_row L existing xy_map idx c st)
          = fst st @ [snapshot L existing xy_map idx c cid])"
  by (simp add: snapshot_evaluation_by_year map_of_sort_key distinct_eval_by_year_of
        map_of_eval_by_year_of reconcile_row_def) (simp add: layered_def)


theorem year_mapping_precedence_witness:
  "map_of (cs_evaluation_by_year (snapshot example_lib (Some prior_five) Map.empty
      (index_records example_lib [remote_five])
      (roster_row (py ''5'') (py ''Y'') (Some (py ''111-'' @ [30002]))) 5)) (py ''111'')
    = Some (PStr [19993])
   \<and> map_of (history example_lib (Some prior_five) 5) (py ''111'') = Some (PStr [20057])
   \<and> LEGACY_EVAL_RE_match example_lib (py ''111-'' @ [30002]) = Some (py ''111'', [30002])"
proof -
  have r: "remote_years example_lib (find_record (index_records example_lib [remote_five]) 5
             (cell_text (row_name (roster_row (py ''5'') (py ''Y'') (Some (py ''111-'' @ [30002]))))))
             (py ''111'') = Some [19993]"
    by (simp add: remote_years_def find_record_def found_def index_example parse_eval_years_example)
       (simp add: remote_five_def)
  have h: "map_of (history example_lib (Some prior_five) 5) (py ''111'') = Some (PStr [20057])"
    by (simp add: history_def prior_five_def safe_int_example_five dict_update_def)
  have l: "LEGACY_EVAL_RE_match example_lib (py ''111-'' @ [30002]) = Some (py ''111'', [30002])"
    by (simp add: LEGACY_EVAL_RE_match_def example_lib_sel isspace_def py_def)
  from r h l year_mapping_precedence [where L = example_lib and existing = "Some prior_five"
      and xy_map = Map.empty and idx = "index_records example_lib [remote_five]"
      and c = "roster_row (py ''5'') (py ''Y'') (Some (py ''111-'' @ [30002]))" and cid = 5
      and y = "py ''111''" and g = "[19993]" and st = "([], [])"]
  show ?thesis by blast
qed


lemma reconcile_row_skip:
  "safe_int L (cell_val (row_seq c)) = None \<Longrightarrow> reconcile_row L existing xy_map idx c st = st"
  by (simp add: reconcile_row_def)

text \<open>
  C9. A roster row whose identifier does not parse as an integer leaves the output and
  the list of unmatched identifiers as they are: it yields no snapshot, is not counted
  as unmatched, and the run over the whole roster is the run over the roster without it.
\<close>

theorem unparseable_identifier_dropped:
  assumes "safe_int L (cell_val (row_seq c)) = None"
  shows "reconcile_row L existing xy_map idx c st = st
     \<and> reconcile L existing xy_map idx (before @ c # after) = reconcile L existing xy_map idx (before @ after)
     \<and> main L (w\<lparr>w_centers_csv := Some (before @ c # after)\<rparr>)
         = main L (w\<lparr>w_centers_csv := Some (before @ after)\<rparr>)"
proof -
  have a: "reconcile L existing xy_map idx (before @ c # after) = reconcile L existing xy_map idx (before @ after)"
    for existing xy_map idx
    using assms by (simp add: reconcile_def reconcile_row_skip)
  show ?thesis
    using assms
    by (simp add: a reconcile_row_skip main_def build_document_def Let_def
          cong: sum.case_cong option.case_cong bool.case_cong prod.case_cong)
qed

theorem unparseable_identifier_dropped_witness:
  "reconcile_row example_lib None Map.empty (Map.empty, Map.empty) (roster_row (py ''n/a'') (py ''X'') None) ([], [7]) = ([], [7])
   \<and> reconcile example_lib None Map.empty (Map.empty, Map.empty)
        [roster_row (py ''5'') (py ''Y'') None, roster_row (py ''n/a'') (py ''X'') None]
     = reconcile example_lib None Map.empty (Map.empty, Map.empty) [roster_row (py ''5'') (py ''Y'') None]
   \<and> main example_lib (example_world\<lparr>w_centers_csv := Some [roster_row (py ''n/a'') (py ''X'') None]\<rparr>)
     = main example_lib (example_world\<lparr>w_centers_csv := Some []\<rparr>)"
proof -
  have "safe_int example_lib (cell_val (row_seq (roster_row (py ''n/a'') (py ''X'') None))) = None"
    by (simp add: roster_row_def cell_val_def safe_int_example_text example_int_def ascii_digits_def
          strip_def isspace_def py_def)
  from unparseable_identifier_dropped [OF this, where before = "[roster_row (py ''5'') (py ''Y'') None]" and after = "[]"
      and existing = None and xy_map = Map.empty and idx = "(Map.empty, Map.empty)" and st = "([], [7])" and w = example_world]
    unparseable_identifier_dropped [OF this, where before = "[]" and after = "[]" and w = example_world]
  show ?thesis by simp
qed







lemma update_new_key:
  "k \<notin> fst ` set d \<Longrightarrow> AList.update k v d = d @ [(k, v)]"
  by (induction d) auto

lemma dict_update_distinct:
  "distinct (map fst (d @ xs)) \<Longrightarrow> dict_update d xs = d @ xs"
proof (induction xs arbitrary: d)
  case Nil
  then show ?case by (simp add: dict_update_def)
next
  case (Cons p xs)
  obtain k v where p: "p = (k, v)" by (cases p)
  from Cons.prems have new: "k \<notin> fst ` set d" by (auto simp: p)
  have "dict_update d (p # xs) = dict_update (d @ [(k, v)]) xs"
    by (simp add: dict_update_def p update_new_key [OF new])
  also have "\<dots> = (d @ [(k, v)]) @ xs"
    using Cons.prems by (intro Cons.IH) (simp add: p)
  finally show ?case by (simp add: p)
qed

lemma find_first:
  "\<forall>x\<in>set earlier. \<not> P x \<Longrightarrow> P old \<Longrightarrow> find P (earlier @ old # later) = Some old"
  by (induction earlier) simp_all

lemma history_of_first:
  assumes "pd_centers doc = earlier @ old # later"
      and "\<forall>x\<in>set earlier. safe_int L (pc_id x) \<noteq> Some cid"
      and "safe_int L (pc_id old) = Some cid"
      and "distinct (map fst (pc_evaluation_by_year old))"
  shows "history L (Some doc) cid = pc_evaluation_by_year old"
proof -
  have "find (\<lambda>x. safe_int L (pc_id x) = Some cid) (pd_centers doc) = Some old"
    using assms(2,3) unfolding assms(1)
    by (rule find_first [where P = "\<lambda>x. safe_int L (pc_id x) = Some cid"])
  moreover have "dict_update [] (pc_evaluation_by_year old) = pc_evaluation_by_year old"
    using dict_update_distinct [of "[]" "pc_evaluation_by_year old"] assms(4) by simp
  ultimately show ?thesis
    by (simp add: history_def)
qed

lemma fst_fold_reconcile_row:
  "fst (fold (reconcile_row L existing xy_map idx) centers st)
     = fst st @ fst (fold (reconcile_row L existing xy_map idx) centers ([], []))"
proof (induction centers arbitrary: st)
  case Nil
  then show ?case by simp
next
  case (Cons c centers)
  have step: "fst (reconcile_row L existing xy_map idx c st)
                = fst st @ fst (reconcile_row L existing xy_map idx c ([], []))" for st
    by (simp add: reconcile_row_def split: option.splits)
  show ?case
    using Cons.IH [of "reconcile_row L existing xy_map idx c st"]
      Cons.IH [of "reconcile_row L existing xy_map idx c ([], [])"] step [of st]
    by simp
qed

lemma fst_reconcile_append:
  "fst (reconcile L existing xy_map idx (xs @ ys))
     = fst (reconcile L existing xy_map idx xs) @ fst (reconcile L existing xy_map idx ys)"
  using fst_fold_reconcile_row [of L existing xy_map idx ys
      "fold (reconcile_row L existing xy_map idx) xs ([], [])"]
  by (simp add: reconcile_def)

lemma fst_reconcile_single:
  "safe_int L (cell_val (row_seq c)) = Some cid \<Longrightarrow>
     fst (reconcile L existing xy_map idx [c]) = [snapshot L existing xy_map idx c cid]"
  by (simp add: reconcile_def reconcile_row_def)

lemma fst_reconcile_row_in:
  assumes "safe_int L (cell_val (row_seq c)) = Some cid"
  shows "fst (reconcile L existing xy_map idx (before @ c # after))
           = fst (reconcile L existing xy_map idx before)
               @ snapshot L existing xy_map idx c cid # fst (reconcile L existing xy_map idx after)"
  using fst_reconcile_append [of L existing xy_map idx before "[c] @ after"]
    fst_reconcile_append [of L existing xy_map idx "[c]" after]
    fst_reconcile_single [OF assms, of existing xy_map idx]
  by simp

lemma cs_id_snapshot: "cs_id (snapshot L existing xy_map idx c cid) = cid"
  by (simp add: snapshot_def Let_def)

lemma ids_of_reconcile:
  "map cs_id (fst (reconcile L existing xy_map idx centers))
     = List.map_filter (\<lambda>c. safe_int L (cell_val (row_seq c))) centers"
proof (induction centers)
  case Nil
  then show ?case by (simp add: reconcile_def map_filter_def)
next
  case (Cons c centers)
  have "fst (reconcile L existing xy_map idx (c # centers))
          = fst (reconcile L existing xy_map idx [c]) @ fst (reconcile L existing xy_map idx centers)"
    using fst_reconcile_append [of L existing xy_map idx "[c]" centers] by simp
  moreover have "map cs_id (fst (reconcile L existing xy_map idx [c]))
          = List.map_filter (\<lambda>c. safe_int L (cell_val (row_seq c))) [c]"
    by (simp add: reconcile_def reconcile_row_def map_filter_def cs_id_snapshot split: option.splits)
  ultimately show ?case
    using Cons.IH by (simp add: map_filter_def)
qed

lemma no_row_no_snapshot:
  assumes "\<forall>r\<in>set centers. safe_int L (cell_val (row_seq r)) \<noteq> Some cid"
  shows "cid \<notin> cs_id ` set (fst (reconcile L existing xy_map idx centers))"
proof -
  have "cid \<notin> set (List.map_filter (\<lambda>c. safe_int L (cell_val (row_seq c))) centers)"
    using assms by (auto simp: map_filter_def)
  then show ?thesis
    using ids_of_reconcile [of L existing xy_map idx centers]
    by (metis set_map)
qed

lemma d_centers_build_document: "d_centers (build_document L w meta st) = fst st"
  by (simp add: build_document_def)

lemma roster_row_id:
  "safe_int example_lib (cell_val (row_seq (roster_row seq name legacy))) = example_int (strip seq)"
  by (simp add: roster_row_def cell_val_def safe_int_example_text)

lemma example_int_digit: "example_int (strip [53]) = Some 5" "example_int (strip [54]) = Some 6"
  by (simp_all add: example_int_def ascii_digits_def strip_def isspace_def)

lemma roster_row_no_legacy:
  "LEGACY_EVAL_RE_match L (cell_text (row_legacy (roster_row seq name None))) = None"
  by (simp add: LEGACY_EVAL_RE_match_def roster_row_def cell_text_def strip_def)

lemma find_record_no_records:
  "find_record (index_records L []) cid name = None"
  by (simp add: find_record_def index_records_def found_def)

text \<open>
  C3, as the code has it. The history of a roster row is the year mapping of the first
  entry of the previous document that has the row's identifier. Let that entry be
  \<open>old\<close>, no entry before it having the identifier, with distinct years, as a
  dictionary has. A roster row \<open>c\<close> with the identifier is emitted in the document of
  the run, at its place in the roster; every
  pair of year and grade of \<open>old\<close> is in the year mapping of its snapshot unless the
  legacy field of the row or the matched remote record supplies a value for the same
  year; and with no legacy field and no remote match the year mapping is the one of
  \<open>old\<close>, in ascending order of the year. A roster without a row of the identifier
  gives a document without a center of the identifier: nothing of the previous document
  is carried over for it.
\<close>

theorem history_preserved:
  assumes "pd_centers doc = earlier @ old # later"
      and "\<forall>x\<in>set earlier. safe_int L (pc_id x) \<noteq> Some cid"
      and "safe_int L (pc_id old) = Some cid"
      and "distinct (map fst (pc_evaluation_by_year old))"
      and "(y, g) \<in> set (pc_evaluation_by_year old)"
  shows "(safe_int L (cell_val (row_seq c)) = Some cid \<longrightarrow>
            d_centers (build_document L w meta
                (reconcile L (Some doc) xy_map idx (before @ c # after)))
              = fst (reconcile L (Some doc) xy_map idx before)
                  @ snapshot L (Some doc) xy_map idx c cid
                  # fst (reconcile L (Some doc) xy_map idx after))
     \<and> (map_option fst (LEGACY_EVAL_RE_match L (cell_text (row_legacy c))) \<noteq> Some y
          \<and> remote_years L (find_record idx cid (cell_text (row_name c))) y = None
        \<longrightarrow> (y, g) \<in> set (cs_evaluation_by_year (snapshot L (Some doc) xy_map idx c cid)))
     \<and> (LEGACY_EVAL_RE_match L (cell_text (row_legacy c)) = None
          \<and> \<not> found (find_record idx cid (cell_text (row_name c)))
        \<longrightarrow> cs_evaluation_by_year (snapshot L (Some doc) xy_map idx c cid)
              = sort_key fst (pc_evaluation_by_year old))
     \<and> ((\<forall>r\<in>set centers. safe_int L (cell_val (row_seq r)) \<noteq> Some cid) \<longrightarrow>
          cid \<notin> cs_id ` set (d_centers (build_document L w meta
                    (reconcile L (Some doc) xy_map idx centers))))"
proof (intro conjI impI)
  assume "safe_int L (cell_val (row_seq c)) = Some cid"
  then show "d_centers (build_document L w meta
                (reconcile L (Some doc) xy_map idx (before @ c # after)))
              = fst (reconcile L (Some doc) xy_map idx before)
                  @ snapshot L (Some doc) xy_map idx c cid
                  # fst (reconcile L (Some doc) xy_map idx after)"
    by (simp add: d_centers_build_document fst_reconcile_row_in)
next
  have hist: "history L (Some doc) cid = pc_evaluation_by_year old"
    using assms(1-4) by (rule history_of_first)
  assume "map_option fst (LEGACY_EVAL_RE_match L (cell_text (row_legacy c))) \<noteq> Some y
          \<and> remote_years L (find_record idx cid (cell_text (row_name c))) y = None"
  moreover have "map_of (pc_evaluation_by_year old) y = Some g"
    using assms(4,5) by simp
  ultimately have "map_of (cs_evaluation_by_year (snapshot L (Some doc) xy_map idx c cid)) y = Some g"
    by (simp add: snapshot_evaluation_by_year map_of_sort_key distinct_eval_by_year_of
          map_of_eval_by_year_of layered_def hist split: option.splits)
  then show "(y, g) \<in> set (cs_evaluation_by_year (snapshot L (Some doc) xy_map idx c cid))"
    by (rule map_of_SomeD)
next
  have hist: "history L (Some doc) cid = pc_evaluation_by_year old"
    using assms(1-4) by (rule history_of_first)
  assume "LEGACY_EVAL_RE_match L (cell_text (row_legacy c)) = None
          \<and> \<not> found (find_record idx cid (cell_text (row_name c)))"
  then show "cs_evaluation_by_year (snapshot L (Some doc) xy_map idx c cid)
              = sort_key fst (pc_evaluation_by_year old)"
    by (simp add: snapshot_evaluation_by_year eval_by_year_of_def merge_legacy_def hist found_def
          split: option.splits)
next
  assume "\<forall>r\<in>set centers. safe_int L (cell_val (row_seq r)) \<noteq> Some cid"
  then show "cid \<notin> cs_id ` set (d_centers (build_document L w meta
                    (reconcile L (Some doc) xy_map idx centers)))"
    by (simp only: d_centers_build_document no_row_no_snapshot not_False_eq_True)
qed

theorem history_preserved_witness:
  "d_centers (build_document example_lib example_world (first_meta (example_pages 0))
      (reconcile example_lib (Some prior_five) Map.empty (index_records example_lib [])
         [roster_row (py ''5'') (py ''Y'') None]))
     = [snapshot example_lib (Some prior_five) Map.empty (index_records example_lib [])
          (roster_row (py ''5'') (py ''Y'') None) 5]
   \<and> (py ''111'', PStr [20057])
        \<in> set (cs_evaluation_by_year (snapshot example_lib (Some prior_five) Map.empty
              (index_records example_lib []) (roster_row (py ''5'') (py ''Y'') None) 5))
   \<and> cs_evaluation_by_year (snapshot example_lib (Some prior_five) Map.empty
              (index_records example_lib []) (roster_row (py ''5'') (py ''Y'') None) 5)
      = [(py ''111'', PStr [20057])]
   \<and> 5 \<notin> cs_id ` set (d_centers (build_document example_lib example_world
              (first_meta (example_pages 0))
              (reconcile example_lib (Some prior_five) Map.empty (index_records example_lib [])
                 [roster_row (py ''6'') (py ''X'') None])))"
proof -
  let ?old = "\<lparr>pc_id = PInt 5, pc_evaluation_by_year = [(py ''111'', PStr [20057])]\<rparr>"
  let ?row = "roster_row (py ''5'') (py ''Y'') None"
  let ?idx = "index_records example_lib []"
  have f: "pd_centers prior_five = [] @ ?old # []"
    by (simp add: prior_five_def)
  have g: "\<forall>x\<in>set []. safe_int example_lib (pc_id x) \<noteq> Some 5"
    by simp
  have i: "safe_int example_lib (pc_id ?old) = Some 5"
    by (simp add: safe_int_example_five)
  have d: "distinct (map fst (pc_evaluation_by_year ?old))"
    by simp
  have m: "(py ''111'', PStr [20057]) \<in> set (pc_evaluation_by_year ?old)"
    by simp
  have a: "safe_int example_lib (cell_val (row_seq ?row)) = Some 5"
    by (simp add: roster_row_id py_def example_int_digit)
  have b: "LEGACY_EVAL_RE_match example_lib (cell_text (row_legacy ?row)) = None"
    by (rule roster_row_no_legacy)
  have c: "find_record ?idx 5 (cell_text (row_name ?row)) = None"
    by (rule find_record_no_records)
  have s: "sort_key fst (pc_evaluation_by_year ?old) = [(py ''111'', PStr [20057])]"
    by simp
  have e: "reconcile example_lib (Some prior_five) Map.empty ?idx [] = ([], [])"
    by (simp add: reconcile_def)
  have n: "\<forall>r\<in>set [roster_row (py ''6'') (py ''X'') None].
             safe_int example_lib (cell_val (row_seq r)) \<noteq> Some 5"
    by (simp add: roster_row_id py_def example_int_digit)
  from history_preserved [OF f g i d m, where c = ?row and before = "[]" and after = "[]"
      and w = example_world and meta = "first_meta (example_pages 0)" and xy_map = Map.empty
      and idx = ?idx and centers = "[roster_row (py ''6'') (py ''X'') None]"]
    a b c s e n
  show ?thesis
    by (simp only: fst_conv append_Nil simp_thms remote_years_def found_def option.simps
          map_option_case list.set insertI1)
qed

text \<open>
  The claim fails for a center of the previous document that the roster no longer
  lists, and for the pairs of a second entry with the same identifier: with the previous
  document of center 5 and a roster whose only row has the identifier 6, the centers of
  the document are the one of identifier 6; and of two previous entries of the
  identifier 5 only the year mapping of the first reaches the snapshot of the row 5.
\<close>

theorem history_preserved_counterexample:
  "map cs_id (d_centers (build_document example_lib example_world (first_meta (example_pages 0))
      (reconcile example_lib (Some prior_five) Map.empty (index_records example_lib [])
         [roster_row (py ''6'') (py ''X'') None]))) = [6]
   \<and> map cs_evaluation_by_year (d_centers (build_document example_lib example_world
        (first_meta (example_pages 0))
        (reconcile example_lib (Some prior_twice) Map.empty (index_records example_lib [])
           [roster_row (py ''5'') (py ''Y'') None]))) = [[(py ''111'', PStr [20057])]]"
proof -
  let ?idx = "index_records example_lib []"
  have a: "map cs_id (fst (reconcile example_lib (Some prior_five) Map.empty ?idx
              [roster_row (py ''6'') (py ''X'') None])) = [6]"
    by (simp add: ids_of_reconcile map_filter_def roster_row_id py_def example_int_digit)
  have h: "history example_lib (Some prior_twice) 5 = [(py ''111'', PStr [20057])]"
    by (simp add: history_def prior_twice_def safe_int_example_five dict_update_def)
  have "cs_evaluation_by_year (snapshot example_lib (Some prior_twice) Map.empty ?idx
              (roster_row (py ''5'') (py ''Y'') None) 5) = [(py ''111'', PStr [20057])]"
    by (simp add: snapshot_evaluation_by_year eval_by_year_of_def merge_legacy_def
          roster_row_no_legacy find_record_no_records h)
  then have b: "map cs_evaluation_by_year (fst (reconcile example_lib (Some prior_twice) Map.empty ?idx
              [roster_row (py ''5'') (py ''Y'') None])) = [[(py ''111'', PStr [20057])]]"
    by (simp add: reconcile_def reconcile_row_def roster_row_id py_def example_int_digit)
  from a b show ?thesis
    by (simp add: d_centers_build_document)
qed

subsection \<open>The unmatched rows\<close>

lemma fold_index_no_None:
  "fst (fold (index_step L) records idx) cid = None \<longleftrightarrow>
     fst idx cid = None \<and> (\<forall>rec\<in>set records. safe_int L (dict_get rec KEY_NO) \<noteq> Some cid)"
proof (induction records arbitrary: idx)
  case Nil
  then show ?case by simp
next
  case (Cons r records)
  have "fst (index_step L r idx) cid = None \<longleftrightarrow>
          fst idx cid = None \<and> safe_int L (dict_get r KEY_NO) \<noteq> Some cid"
    by (simp add: index_step_def Let_def split: option.splits)
  with Cons.IH [of "index_step L r idx"] show ?case by auto
qed

lemma fold_index_no_Some:
  "fst (fold (index_step L) records idx) cid = Some r \<Longrightarrow>
     (r \<in> set records \<and> safe_int L (dict_get r KEY_NO) = Some cid) \<or> fst idx cid = Some r"
proof (induction records arbitrary: idx)
  case Nil
  then show ?case by simp
next
  case (Cons x records)
  have step: "fst (index_step L x idx) cid = Some r \<Longrightarrow>
          (r = x \<and> safe_int L (dict_get x KEY_NO) = Some cid) \<or> fst idx cid = Some r"
    by (simp add: index_step_def Let_def split: option.splits if_splits)
  from Cons.IH [of "index_step L x idx"] Cons.prems
  have "(r \<in> set records \<and> safe_int L (dict_get r KEY_NO) = Some cid)
          \<or> fst (index_step L x idx) cid = Some r"
    by simp
  with step show ?case by auto
qed

lemma fold_index_name_None:
  "snd (fold (index_step L) records idx) name = None \<longleftrightarrow>
     snd idx name = None \<and> (name = [] \<or> (\<forall>rec\<in>set records. record_name L rec \<noteq> name))"
proof (induction records arbitrary: idx)
  case Nil
  then show ?case by simp
next
  case (Cons r records)
  have "snd (index_step L r idx) name = None \<longleftrightarrow>
          snd idx name = None \<and> (name = [] \<or> record_name L r \<noteq> name)"
    by (auto simp: index_step_def Let_def)
  with Cons.IH [of "index_step L r idx"] show ?case by auto
qed

lemma fold_index_name_Some:
  "snd (fold (index_step L) records idx) name = Some r \<Longrightarrow>
     (r \<in> set records \<and> record_name L r = name \<and> name \<noteq> []) \<or> snd idx name = Some r"
proof (induction records arbitrary: idx)
  case Nil
  then show ?case by simp
next
  case (Cons x records)
  have step: "snd (index_step L x idx) name = Some r \<Longrightarrow>
          (r = x \<and> record_name L x = name \<and> name \<noteq> []) \<or> snd idx name = Some r"
    by (simp add: index_step_def Let_def split: if_splits)
  from Cons.IH [of "index_step L x idx"] Cons.prems
  have "(r \<in> set records \<and> record_name L r = name \<and> name \<noteq> [])
          \<or> snd (index_step L x idx) name = Some r"
    by simp
  with step show ?case by auto
qed

lemma record_name_empty: "record_name L [] = []"
  by (simp add: record_name_def dict_get_def py_str_def strip_def)

lemma found_find_record:
  assumes "safe_int L PNone = None"
  shows "found (find_record (index_records L records) cid name) \<longleftrightarrow>
           (\<exists>rec\<in>set records. safe_int L (dict_get rec KEY_NO) = Some cid)
           \<or> (name \<noteq> [] \<and> (\<exists>rec\<in>set records. record_name L rec = name))"
proof (cases "fst (index_records L records) cid")
  case None
  then have no: "\<forall>rec\<in>set records. safe_int L (dict_get rec KEY_NO) \<noteq> Some cid"
    using fold_index_no_None [of L records "(Map.empty, Map.empty)" cid]
    by (simp add: index_records_def)
  have fr: "find_record (index_records L records) cid name = snd (index_records L records) name"
    using None by (simp add: find_record_def found_def)
  show ?thesis
  proof (cases "snd (index_records L records) name")
    case None
    then have "name = [] \<or> (\<forall>rec\<in>set records. record_name L rec \<noteq> name)"
      using fold_index_name_None [of L records "(Map.empty, Map.empty)" name]
      by (simp add: index_records_def)
    with no None fr show ?thesis by (auto simp: found_def)
  next
    case (Some r)
    then have r: "r \<in> set records \<and> record_name L r = name \<and> name \<noteq> []"
      using fold_index_name_Some [of L records "(Map.empty, Map.empty)" name r]
      by (simp add: index_records_def)
    then have "r \<noteq> []"
      using record_name_empty [of L] by auto
    with r Some fr show ?thesis by (auto simp: found_def)
  qed
next
  case (Some r)
  then have r: "r \<in> set records \<and> safe_int L (dict_get r KEY_NO) = Some cid"
    using fold_index_no_Some [of L records "(Map.empty, Map.empty)" cid r]
    by (simp add: index_records_def)
  then have "r \<noteq> []"
    using assms by (auto simp: dict_get_def)
  with r Some show ?thesis by (auto simp: find_record_def found_def)
qed

lemma found_is_matched:
  assumes "safe_int L PNone = None"
  shows "found (find_record (index_records L records) cid (cell_text (row_name c)))
           = is_matched L records c cid"
  unfolding found_find_record [OF assms] is_matched_def matches_row_def by blast

lemma snd_fold_reconcile_row:
  "snd (fold (reconcile_row L existing xy_map idx) centers st)
     = snd st @ snd (fold (reconcile_row L existing xy_map idx) centers ([], []))"
proof (induction centers arbitrary: st)
  case Nil
  then show ?case by simp
next
  case (Cons c centers)
  have step: "snd (reconcile_row L existing xy_map idx c st)
                = snd st @ snd (reconcile_row L existing xy_map idx c ([], []))" for st
    by (simp add: reconcile_row_def split: option.splits)
  show ?case
    using Cons.IH [of "reconcile_row L existing xy_map idx c st"]
      Cons.IH [of "reconcile_row L existing xy_map idx c ([], [])"] step [of st]
    by simp
qed

lemma snd_reconcile_Cons:
  "snd (reconcile L existing xy_map idx (c # centers))
     = snd (reconcile_row L existing xy_map idx c ([], []))
         @ snd (reconcile L existing xy_map idx centers)"
  using snd_fold_reconcile_row [of L existing xy_map idx centers
      "reconcile_row L existing xy_map idx c ([], [])"]
  by (simp add: reconcile_def)

lemma unmatched_rows_append:
  "unmatched_rows L records (xs @ ys) = unmatched_rows L records xs @ unmatched_rows L records ys"
  by (simp add: unmatched_rows_def map_filter_def)

lemma snd_reconcile:
  assumes "safe_int L PNone = None"
  shows "snd (reconcile L existing xy_map (index_records L records) centers)
           = unmatched_rows L records centers"
proof (induction centers)
  case Nil
  then show ?case by (simp add: reconcile_def unmatched_rows_def map_filter_def)
next
  case (Cons c centers)
  have "snd (reconcile_row L existing xy_map (index_records L records) c ([], []))
          = unmatched_rows L records [c]"
    by (simp add: reconcile_row_def unmatched_rows_def map_filter_def found_is_matched [OF assms]
          split: option.splits)
  with Cons.IH unmatched_rows_append [of L records "[c]" centers] show ?case
    by (simp add: snd_reconcile_Cons)
qed

lemma remote_years_not_found: "\<not> found rec \<Longrightarrow> remote_years L rec = Map.empty"
  by (simp add: remote_years_def found_def split: option.splits)

lemma safe_int_example_none: "safe_int example_lib PNone = None"
  by (simp add: safe_int_def py_str_def example_lib_sel example_repr_def example_int_def
        ascii_digits_def strip_def isspace_def py_def)

lemma remote_five_no: "safe_int example_lib (dict_get remote_five KEY_NO) = Some 5"
  by (simp add: remote_five_def dict_get_def safe_int_example_five)

lemma remote_five_name: "record_name example_lib remote_five = py ''Y''"
  by (simp add: record_name_def remote_five_def dict_get_def KEY_NO_def KEY_NAME_def py_str_def
        strip_def isspace_def py_def)

lemma roster_row_name: "cell_text (row_name (roster_row seq name legacy)) = strip name"
  by (simp add: roster_row_def cell_text_def)

lemma index_example_name:
  "fst (index_records example_lib [remote_five]) 6 = None"
  "snd (index_records example_lib [remote_five]) (py ''Y'') = Some remote_five"
  by (simp_all add: index_records_def index_step_def remote_five_no remote_five_name Let_def py_def)

text \<open>
  C7, as the code has it. A record of the remote list matches a roster row when its
  number is the identifier of the row, or when its name is the name of the row, both
  stripped of surrounding whitespace, and that name is not empty. Where \<^verbatim>\<open>int\<close> rejects
  the text of \<^verbatim>\<open>None\<close>, as Python's does (so that a record without a number is indexed
  under none), the unmatched list of a run holds exactly the identifiers of the rows
  that parse and that no record matches, in the order of the roster; the metadata of the
  document hold its first 50 entries, and its length as the count. Such a row is
  emitted at its place in the roster, its identifier is in the unmatched list at its
  place, and its year mapping is layered from history and legacy field alone.
\<close>

theorem unmatched_accounting:
  assumes "safe_int L PNone = None"
  shows "snd (reconcile L existing xy_map (index_records L records) centers)
           = unmatched_rows L records centers
     \<and> m_unmatched_center_ids_in_base_list
           (d_meta (build_document L w meta
              (reconcile L existing xy_map (index_records L records) centers)))
           = take 50 (unmatched_rows L records centers)
     \<and> m_unmatched_count
           (d_meta (build_document L w meta
              (reconcile L existing xy_map (index_records L records) centers)))
           = length (unmatched_rows L records centers)
     \<and> (safe_int L (cell_val (row_seq c)) = Some cid \<and> \<not> is_matched L records c cid \<longrightarrow>
          unmatched_rows L records (before @ c # after)
            = unmatched_rows L records before @ cid # unmatched_rows L records after
          \<and> d_centers (build_document L w meta
                (reconcile L existing xy_map (index_records L records) (before @ c # after)))
              = fst (reconcile L existing xy_map (index_records L records) before)
                  @ snapshot L existing xy_map (index_records L records) c cid
                  # fst (reconcile L existing xy_map (index_records L records) after)
          \<and> map_of (cs_evaluation_by_year
                (snapshot L existing xy_map (index_records L records) c cid))
              = layered (map_of (history L existing cid))
                  (LEGACY_EVAL_RE_match L (cell_text (row_legacy c))) Map.empty)"
proof (intro conjI impI)
  show "snd (reconcile L existing xy_map (index_records L records) centers)
          = unmatched_rows L records centers"
    using assms by (rule snd_reconcile)
  then show "m_unmatched_center_ids_in_base_list
           (d_meta (build_document L w meta
              (reconcile L existing xy_map (index_records L records) centers)))
           = take 50 (unmatched_rows L records centers)"
    by (simp add: build_document_def)
  show "m_unmatched_count
           (d_meta (build_document L w meta
              (reconcile L existing xy_map (index_records L records) centers)))
           = length (unmatched_rows L records centers)"
    by (simp add: build_document_def snd_reconcile [OF assms])
next
  assume row: "safe_int L (cell_val (row_seq c)) = Some cid \<and> \<not> is_matched L records c cid"
  then have "unmatched_rows L records [c] = [cid]"
    by (simp add: unmatched_rows_def map_filter_def)
  then show "unmatched_rows L records (before @ c # after)
            = unmatched_rows L records before @ cid # unmatched_rows L records after"
    using unmatched_rows_append [of L records before "[c] @ after"]
      unmatched_rows_append [of L records "[c]" after]
    by simp
  from row show "d_centers (build_document L w meta
                (reconcile L existing xy_map (index_records L records) (before @ c # after)))
              = fst (reconcile L existing xy_map (index_records L records) before)
                  @ snapshot L existing xy_map (index_records L records) c cid
                  # fst (reconcile L existing xy_map (index_records L records) after)"
    by (simp add: d_centers_build_document fst_reconcile_row_in)
  from row have "\<not> found (find_record (index_records L records) cid (cell_text (row_name c)))"
    by (simp add: found_is_matched [OF assms])
  then show "map_of (cs_evaluation_by_year
                (snapshot L existing xy_map (index_records L records) c cid))
              = layered (map_of (history L existing cid))
                  (LEGACY_EVAL_RE_match L (cell_text (row_legacy c))) Map.empty"
    by (simp add: snapshot_evaluation_by_year map_of_sort_key distinct_eval_by_year_of
          map_of_eval_by_year_of remote_years_not_found)
qed

theorem unmatched_accounting_witness:
  "snd (reconcile example_lib None Map.empty (index_records example_lib [remote_five])
          [roster_row (py ''6'') (py ''X'') None, roster_row (py ''5'') (py ''Y'') None]) = [6]
   \<and> m_unmatched_center_ids_in_base_list
        (d_meta (build_document example_lib example_world (first_meta (example_pages 0))
           (reconcile example_lib None Map.empty (index_records example_lib [remote_five])
              [roster_row (py ''6'') (py ''X'') None, roster_row (py ''5'') (py ''Y'') None]))) = [6]
   \<and> m_unmatched_count
        (d_meta (build_document example_lib example_world (first_meta (example_pages 0))
           (reconcile example_lib None Map.empty (index_records example_lib [remote_five])
              [roster_row (py ''6'') (py ''X'') None, roster_row (py ''5'') (py ''Y'') None]))) = 1
   \<and> d_centers (build_document example_lib example_world (first_meta (example_pages 0))
           (reconcile example_lib None Map.empty (index_records example_lib [remote_five])
              [roster_row (py ''6'') (py ''X'') None, roster_row (py ''5'') (py ''Y'') None]))
       = [snapshot example_lib None Map.empty (index_records example_lib [remote_five])
            (roster_row (py ''6'') (py ''X'') None) 6,
          snapshot example_lib None Map.empty (index_records example_lib [remote_five])
            (roster_row (py ''5'') (py ''Y'') None) 5]
   \<and> cs_evaluation_by_year (snapshot example_lib None Map.empty
          (index_records example_lib [remote_five]) (roster_row (py ''6'') (py ''X'') None) 6) = []"
proof -
  let ?idx = "index_records example_lib [remote_five]"
  let ?six = "roster_row (py ''6'') (py ''X'') None"
  let ?five = "roster_row (py ''5'') (py ''Y'') None"
  have a: "safe_int example_lib (cell_val (row_seq ?six)) = Some 6"
    by (simp add: roster_row_id py_def example_int_digit)
  have b: "\<not> is_matched example_lib [remote_five] ?six 6"
    by (simp add: is_matched_def matches_row_def remote_five_no remote_five_name roster_row_name
          strip_def isspace_def py_def)
  have five: "is_matched example_lib [remote_five] ?five 5"
    by (simp add: is_matched_def matches_row_def remote_five_no)
  have u: "unmatched_rows example_lib [remote_five] [?six, ?five] = [6]"
    using a b five
    by (simp add: unmatched_rows_def map_filter_def roster_row_id py_def example_int_digit)
  have e: "fst (reconcile example_lib None Map.empty ?idx []) = []"
    by (simp add: reconcile_def)
  have f: "fst (reconcile example_lib None Map.empty ?idx [?five])
             = [snapshot example_lib None Map.empty ?idx ?five 5]"
    by (simp add: fst_reconcile_single roster_row_id py_def example_int_digit)
  have l: "layered (map_of (history example_lib None 6))
             (LEGACY_EVAL_RE_match example_lib (cell_text (row_legacy ?six))) Map.empty = Map.empty"
    by (rule ext) (simp add: layered_def history_def roster_row_no_legacy)
  from unmatched_accounting [OF safe_int_example_none, where existing = None
      and xy_map = Map.empty and records = "[remote_five]" and centers = "[?six, ?five]"
      and w = example_world and meta = "first_meta (example_pages 0)" and c = ?six and cid = 6
      and before = "[]" and after = "[?five]"]
    a b u e f l
  show ?thesis
    by (simp only: append_Nil simp_thms take.simps list.size map_of_eq_empty_iff) simp
qed

text \<open>
  The claim fails where it compares the exact names. The row of identifier 6 whose name
  is \<^verbatim>\<open>Y\<close> followed by a space has the number of no record of the example, whose one
  record has the number 5, and the exact name of none, that record being named \<^verbatim>\<open>Y\<close>;
  yet the names are compared after stripping, the row is matched, and the unmatched list
  of the run is empty.
\<close>

theorem unmatched_accounting_counterexample:
  "safe_int example_lib (cell_val (row_seq (roster_row (py ''6'') (py ''Y '') None))) = Some 6
   \<and> safe_int example_lib (dict_get remote_five KEY_NO) = Some 5
   \<and> dict_get remote_five KEY_NAME = PStr (py ''Y'')
   \<and> row_name (roster_row (py ''6'') (py ''Y '') None) = Some (py ''Y '')
   \<and> snd (reconcile example_lib None Map.empty (index_records example_lib [remote_five])
          [roster_row (py ''6'') (py ''Y '') None]) = []
   \<and> m_unmatched_count
        (d_meta (build_document example_lib example_world (first_meta (example_pages 0))
           (reconcile example_lib None Map.empty (index_records example_lib [remote_five])
              [roster_row (py ''6'') (py ''Y '') None]))) = 0"
proof -
  let ?row = "roster_row (py ''6'') (py ''Y '') None"
  have a: "safe_int example_lib (cell_val (row_seq ?row)) = Some 6"
    by (simp add: roster_row_id py_def example_int_digit)
  have n: "cell_text (row_name ?row) = py ''Y''"
    by (simp add: roster_row_name strip_def isspace_def py_def)
  have r: "remote_five \<noteq> []"
    by (simp add: remote_five_def)
  have s: "snd (reconcile example_lib None Map.empty (index_records example_lib [remote_five])
          [?row]) = []"
    by (simp add: reconcile_def reconcile_row_def a n find_record_def found_def index_example_name r)
  have k: "dict_get remote_five KEY_NAME = PStr (py ''Y'')"
    by (simp add: remote_five_def dict_get_def KEY_NO_def KEY_NAME_def)
  have m: "row_name ?row = Some (py ''Y '')"
    by (simp add: roster_row_def)
  from a remote_five_no k m s show ?thesis
    by (simp add: build_document_def)
qed

end
